theory Spec2Isabelle
  imports Complex_Main
begin

section \<open>Data model\<close>

text \<open>
  A cell is either the floating-point NaN or a number. Cell values are only moved and
  compared here, never computed with, so the number is kept as a real.
  A numpy array of any rank is a nested list; \<open>shape\<close> reads the extents off the
  first element of every nesting level, as numpy does for a rectangular array, and
  \<open>flatten\<close> lists the cells in row-major order.
\<close>

datatype cell = NaN | Val real

datatype 'a ndarray = Scalar 'a | Array "'a ndarray list"

fun shape :: "'a ndarray \<Rightarrow> nat list" where
  "shape (Scalar v) = []"
| "shape (Array []) = [0]"
| "shape (Array (x # xs)) = Suc (length xs) # shape x"


datatype CellType = FLOAT32 | FLOAT64 | INT32 | UINT8

datatype LayerType = SPATIAL | SPACETIME

text \<open>
  geopyspark keys are named tuples: \<open>SpatialKey(col, row)\<close> and
  \<open>SpaceTimeKey(col, row, instant)\<close>. Instants are integers (a timestamp).
\<close>

datatype Key = SpatialKey (col: int) (row: int) | SpaceTimeKey (col: int) (row: int) (instant_of: int)

record Tile =
  cells :: "cell ndarray"
  cell_type :: CellType
  no_data_value :: "cell option"

record Extent =
  xmin :: real
  ymin :: real
  xmax :: real
  ymax :: real

record TileLayout =
  layoutCols :: nat
  layoutRows :: nat
  tileCols :: nat
  tileRows :: nat

record LayoutDefinition =
  extent :: Extent
  tileLayout :: TileLayout

record Bounds =
  minKey :: Key
  maxKey :: Key

record Metadata =
  layout_definition :: LayoutDefinition
  bounds :: Bounds
  md_no_data_value :: "cell option"
  crs :: string

record SpatialExtent =
  top :: real
  bottom :: real
  right :: real
  left :: real
  height :: nat
  width :: nat

text \<open>
  The openEO collection metadata, as far as the driver reads it: the name of the temporal
  dimension, the band dimension (its name and band names) and the spatial dimensions.
\<close>

record BandDimension =
  bd_name :: string
  band_names :: "string list"

record CollectionMetadata =
  temporal_dimension_opt :: "string option"
  band_dimension_opt :: "BandDimension option"
  spatial_dimensions :: "string list"

text \<open>Values that arrive from the JSON process graph.\<close>

datatype pyval = PyNone | PyStr string | PyInt int | PyDict "(string \<times> string) list"

text \<open>
  The xarray payload handed to and returned by user code, and its envelope. \<open>vals\<close> is
  the array's \<open>values\<close>. The time coordinate of a labelled array is the sequence of
  its timestamps, or \<open>None\<close> when no sequence was given; the band coordinate is the
  sequence of band names.
\<close>

datatype coord = TimeCoord "int list option" | BandCoord "string list"

record DataArray =
  vals :: "cell ndarray"
  dims :: "string list"
  coords :: "(string \<times> coord) list"
  name :: string

datatype DataCube = DataCube (array: DataArray)

record UdfData =
  proj :: "(string \<times> int) list"
  datacube_list :: "DataCube list"
  user_context :: pyval

text \<open>
  A resolved process graph. \<open>processes\<close> is the visitor's dictionary of process
  names when it has one (\<open>None\<close> when the attribute is missing or no dictionary).
\<close>

datatype visitor =
    SingleNodeUDFProcessGraphVisitor "(string \<times> pyval) list"
  | GeotrellisTileProcessGraphVisitor "string list option"
  | OtherProcessGraphVisitor "string list option"

section \<open>Errors\<close>

text \<open>
  Every exception the modelled code raises is a value. The constructors carry the names of
  the specification's taxonomy; the Python exception and message are:
  \<^item> \<open>UnsupportedDimension d\<close>: FeatureUnsupportedException, "Reduce on dimension d not supported";
  \<^item> \<open>UnsupportedReducer r\<close>: FeatureUnsupportedException, "Reducer r not supported";
  \<^item> \<open>UnsupportedCombination r d\<close>: ValueError, "Unsupported combination of reducer r and dimension d.";
  \<^item> \<open>UdfArgumentError\<close>: ValueError, "The 'run_udf' process requires at least a 'udf' string argument";
  \<^item> \<open>UdfContractViolation cubes\<close>: ValueError, "The provided UDF should return one datacube, but got: cubes";
  \<^item> \<open>UnexpectedSpatialDimensions\<close>, \<open>InvalidUnit\<close> (of the window sizes or of the
    overlap sizes), \<open>WindowTooSmall\<close>, \<open>UnsupportedTemporalWindow\<close>,
    \<open>OnlyBandCallbacks\<close>, \<open>OnlySingleUdf\<close>: OpenEOApiException raised by
    \<open>apply_neighborhood\<close>, one constructor per message;
  \<^item> the others are the Python built-in exceptions of the same name, and
    \<open>MetadataException\<close> is what the metadata accessors raise for an undeclared dimension.
\<close>

datatype window_kind = WindowSizes | OverlapSizes

datatype error =
    SyntaxError
  | AttributeError
  | IndexError
  | KeyError
  | TypeError
  | ValueError
  | ZeroDivisionError
  | MetadataException
  | UdfExecutionError string
  | UdfArgumentError
  | UdfContractViolation "DataCube list"
  | UnsupportedDimension string
  | UnsupportedReducer string
  | UnsupportedCombination visitor string
  | UnexpectedSpatialDimensions "string list"
  | InvalidUnit window_kind
  | WindowTooSmall
  | UnsupportedTemporalWindow
  | OnlyBandCallbacks
  | OnlySingleUdf

fun traverse :: "('a \<Rightarrow> error + 'b) \<Rightarrow> 'a list \<Rightarrow> error + 'b list" where
  "traverse f [] = Inr []"
| "traverse f (x # xs) =
     (case f x of
        Inl e \<Rightarrow> Inl e
      | Inr y \<Rightarrow> (case traverse f xs of Inl e \<Rightarrow> Inl e | Inr ys \<Rightarrow> Inr (y # ys)))"

fun instant :: "Key \<Rightarrow> error + int" where
  "instant (SpatialKey c r) = Inl AttributeError"
| "instant (SpaceTimeKey c r t) = Inr t"

fun is_spacetime :: "Key \<Rightarrow> bool" where
  "is_spacetime (SpatialKey c r) = False"
| "is_spacetime (SpaceTimeKey c r t) = True"


definition has_band_dimension :: "CollectionMetadata \<Rightarrow> bool" where
  "has_band_dimension md = (band_dimension_opt md \<noteq> None)"

definition temporal_dimension :: "CollectionMetadata \<Rightarrow> error + string" where
  "temporal_dimension md =
     (case temporal_dimension_opt md of None \<Rightarrow> Inl MetadataException | Some n \<Rightarrow> Inr n)"

definition band_dimension :: "CollectionMetadata \<Rightarrow> error + BandDimension" where
  "band_dimension md =
     (case band_dimension_opt md of None \<Rightarrow> Inl MetadataException | Some b \<Rightarrow> Inr b)"

section \<open>A distributed layer\<close>

text \<open>
  A tiled raster layer carries its kind, its layout metadata and its tile collection. The
  collection is evaluated lazily by the compute runtime: \<open>numpy_rdd\<close> is the outcome of
  evaluating it, either the tiles or the failure of the job. Building a layer never fails;
  a failure inside a per-tile function shows only in \<open>numpy_rdd\<close>.
\<close>

record TiledRasterLayer =
  layer_type :: LayerType
  layer_metadata :: Metadata
  numpy_rdd :: "error + (Key \<times> Tile) list"

definition from_numpy_rdd ::
  "LayerType \<Rightarrow> error + (Key \<times> Tile) list \<Rightarrow> Metadata \<Rightarrow> TiledRasterLayer" where
  "from_numpy_rdd lt r md = \<lparr>layer_type = lt, layer_metadata = md, numpy_rdd = r\<rparr>"

definition rdd_map :: "('a \<Rightarrow> error + 'b) \<Rightarrow> error + 'a list \<Rightarrow> error + 'b list" where
  "rdd_map f r = (case r of Inl e \<Rightarrow> Inl e | Inr xs \<Rightarrow> traverse f xs)"

definition rdd_flatMap :: "('a \<Rightarrow> error + 'b list) \<Rightarrow> error + 'a list \<Rightarrow> error + 'b list" where
  "rdd_flatMap f r =
     (case rdd_map f r of Inl e \<Rightarrow> Inl e | Inr xss \<Rightarrow> Inr (concat xss))"

text \<open>
  Spark's \<open>groupByKey\<close>: one group per distinct key, holding the values of that key.
  The order of the groups is not specified by Spark; the model lists them by the last
  occurrence of their key.
\<close>

definition groupByKey :: "('k \<times> 'v) list \<Rightarrow> ('k \<times> 'v list) list" where
  "groupByKey kvs =
     map (\<lambda>k. (k, map snd (filter (\<lambda>p. fst p = k) kvs))) (remdups (map fst kvs))"

definition rdd_groupByKey :: "error + ('k \<times> 'v) list \<Rightarrow> error + ('k \<times> 'v list) list" where
  "rdd_groupByKey r = (case r of Inl e \<Rightarrow> Inl e | Inr kvs \<Rightarrow> Inr (groupByKey kvs))"

section \<open>External collaborators\<close>

text \<open>
  The collaborators the engine calls as black boxes are parameters of the model:
  \<^item> \<open>py_compile\<close>: Python's \<open>compile(function, 'UDF.py', mode='exec')\<close>; \<open>Some e\<close> when it raises;
  \<^item> \<open>run_user_code\<close>: the UDF runner (module \<open>openeogeotrellis.run_udf\<close>);
  \<^item> \<open>groupby_t\<close>: xarray's \<open>groupby('t')\<close> of a result array, as (timestamp, slice) pairs;
  \<^item> \<open>now\<close>: the wall-clock reading of \<open>datetime.now()\<close>;
  \<^item> \<open>convert_data_type\<close>, \<open>to_spatial_layer\<close>, \<open>aggregate_by_cell\<close>: geopyspark layer operations;
  \<^item> \<open>mapBands\<close>, \<open>retile\<close>, \<open>remove_overlap\<close>: the JVM operations of \<open>OpenEOProcesses\<close>;
  \<^item> \<open>composite\<close>: the numpy aggregators (module \<open>openeogeotrellis.numpy_aggregators\<close>), by name;
  \<^item> \<open>md_reduce_dimension\<close>: \<open>CollectionMetadata.reduce_dimension\<close>;
  \<^item> \<open>pyramid_layer_type\<close>: \<open>Pyramid.layer_type\<close>;
  \<^item> \<open>accept_udf_graph\<close>, \<open>accept_tile_graph\<close>: the process-graph visitors' traversal;
  \<^item> \<open>int_of_str\<close>: Python's \<open>int\<close> on a string;
  \<^item> \<open>uninitialized\<close>: the content of a buffer allocated by \<open>np.empty\<close>.
\<close>

record env =
  py_compile :: "string \<Rightarrow> error option"
  run_user_code :: "string \<Rightarrow> UdfData \<Rightarrow> error + UdfData"
  groupby_t :: "DataArray \<Rightarrow> (int \<times> DataArray) list"
  now :: int
  convert_data_type :: "CellType \<Rightarrow> TiledRasterLayer \<Rightarrow> TiledRasterLayer"
  to_spatial_layer :: "TiledRasterLayer \<Rightarrow> TiledRasterLayer"
  aggregate_by_cell :: "string \<Rightarrow> TiledRasterLayer \<Rightarrow> TiledRasterLayer"
  mapBands :: "visitor \<Rightarrow> TiledRasterLayer \<Rightarrow> TiledRasterLayer"
  retile :: "int \<Rightarrow> int \<Rightarrow> int \<Rightarrow> int \<Rightarrow> TiledRasterLayer \<Rightarrow> TiledRasterLayer"
  remove_overlap :: "int \<Rightarrow> int \<Rightarrow> int \<Rightarrow> int \<Rightarrow> TiledRasterLayer \<Rightarrow> TiledRasterLayer"
  composite :: "string \<Rightarrow> Tile list \<Rightarrow> Tile"
  md_reduce_dimension :: "CollectionMetadata \<Rightarrow> string \<Rightarrow> error + CollectionMetadata"
  pyramid_layer_type :: "(int \<times> TiledRasterLayer) list \<Rightarrow> LayerType"
  accept_udf_graph :: "(string \<times> (string option \<times> (string \<times> pyval) list)) list \<Rightarrow> visitor"
  accept_tile_graph :: "(string \<times> (string option \<times> (string \<times> pyval) list)) list \<Rightarrow> visitor"
  int_of_str :: "string \<Rightarrow> error + int"
  uninitialized :: "nat \<Rightarrow> nat \<Rightarrow> nat \<Rightarrow> cell"

section \<open>UDF execution pipeline\<close>

text \<open>\<open>_mapTransform\<close>: the geographic extent of a key. Dividing by a zero grid size raises.\<close>

definition mapTransform :: "LayoutDefinition \<Rightarrow> Key \<Rightarrow> error + SpatialExtent" where
  "mapTransform layoutDefinition spatialKey =
     (let ex = extent layoutDefinition;
          x_range = xmax ex - xmin ex
      in if layoutCols (tileLayout layoutDefinition) = 0 then Inl ZeroDivisionError
         else
           let xinc = x_range / real (layoutCols (tileLayout layoutDefinition));
               yrange = ymax ex - ymin ex
           in if layoutRows (tileLayout layoutDefinition) = 0 then Inl ZeroDivisionError
              else
                let yinc = yrange / real (layoutRows (tileLayout layoutDefinition))
                in Inr \<lparr>top = ymax ex - yinc * real_of_int (row spatialKey),
                        bottom = ymax ex - yinc * real_of_int (row spatialKey + 1),
                        right = xmin ex + xinc * real_of_int (col spatialKey + 1),
                        left = xmin ex + xinc * real_of_int (col spatialKey),
                        height = tileCols (tileLayout layoutDefinition),
                        width = tileRows (tileLayout layoutDefinition)\<rparr>)"

text \<open>
  xarray's constructor \<open>xr.DataArray(data, coords=coords, dims=dims, name=name)\<close>, with
  the checks it makes on its arguments: there is one dimension name per axis of the data,
  and a coordinate that is a sequence of labels is named after a dimension and has as many
  labels as that axis is long (a coordinate named after a dimension is such a sequence).
  Otherwise it raises a \<open>ValueError\<close>.
\<close>

fun coord_length :: "coord \<Rightarrow> nat option" where
  "coord_length (TimeCoord None) = None"
| "coord_length (TimeCoord (Some ts)) = Some (length ts)"
| "coord_length (BandCoord ns) = Some (length ns)"

definition xr_DataArray ::
  "cell ndarray \<Rightarrow> (string \<times> coord) list \<Rightarrow> string list \<Rightarrow> string \<Rightarrow> error + DataArray" where
  "xr_DataArray data the_coords the_dims the_name =
     (if length the_dims \<noteq> length (shape data) then Inl ValueError
      else if list_all (\<lambda>c. coord_length (snd c) = map_of (zip the_dims (shape data)) (fst c))
                the_coords
           then Inr \<lparr>vals = data, dims = the_dims, coords = the_coords, name = the_name\<rparr>
           else Inl ValueError)"

text \<open>\<open>_tile_to_datacube\<close>: a rank-4 array has a temporal axis, labelled by \<open>start_times\<close>.\<close>

definition tile_to_datacube ::
  "cell ndarray \<Rightarrow> SpatialExtent \<Rightarrow> BandDimension option \<Rightarrow> int list option
     \<Rightarrow> error + DataCube" where
  "tile_to_datacube bands_numpy ext band_dim start_times =
     (let coords0 = (if length (shape bands_numpy) = 4 then [(''t'', TimeCoord start_times)] else []);
          dims0 = (if length (shape bands_numpy) = 4 then [''t'', ''bands'', ''x'', ''y'']
                   else [''bands'', ''x'', ''y'']);
          coords1 = (case band_dim of
                       None \<Rightarrow> coords0
                     | Some b \<Rightarrow> coords0 @ [(''bands'', BandCoord (band_names b))])
      in case xr_DataArray bands_numpy coords1 dims0 ''openEODataChunk'' of
           Inl e \<Rightarrow> Inl e
         | Inr the_array \<Rightarrow> Inr (DataCube the_array))"

text \<open>
  The exchange envelope: \<open>UdfData({"EPSG": 900913}, [datacube])\<close> with the user context
  stored in it.
\<close>

definition udf_data :: "DataCube \<Rightarrow> pyval \<Rightarrow> UdfData" where
  "udf_data datacube context =
     \<lparr>proj = [(''EPSG'', 900913)], datacube_list = [datacube], user_context = context\<rparr>"

text \<open>The per-tile function of \<open>apply_tiles\<close> (single-tile mode).\<close>

definition tilefunction ::
  "env \<Rightarrow> string \<Rightarrow> pyval \<Rightarrow> Metadata \<Rightarrow> CollectionMetadata \<Rightarrow> Key \<times> Tile
     \<Rightarrow> error + Key \<times> Tile" where
  "tilefunction E function context metadata openeo_metadata geotrellis_tile =
     (let key = fst geotrellis_tile in
      case mapTransform (layout_definition metadata) key of
        Inl e \<Rightarrow> Inl e
      | Inr ext \<Rightarrow>
     (case band_dimension openeo_metadata of
        Inl e \<Rightarrow> Inl e
      | Inr b \<Rightarrow>
     (case tile_to_datacube (cells (snd geotrellis_tile)) ext (Some b) None of
        Inl e \<Rightarrow> Inl e
      | Inr datacube \<Rightarrow>
         let data = udf_data datacube context
         in case run_user_code E function data of
              Inl e \<Rightarrow> Inl e
            | Inr result_data \<Rightarrow>
                let cubes = datacube_list result_data in
                if length cubes \<noteq> 1 then Inl (UdfContractViolation cubes)
                else
                  let result_array = array (cubes ! 0)
                  in Inr (key, \<lparr>cells = vals result_array,
                                cell_type = cell_type (snd geotrellis_tile),
                                no_data_value = no_data_value (snd geotrellis_tile)\<rparr>))))"

text \<open>
  The per-group function of \<open>apply_tiles_spatiotemporal\<close> (grouped mode), in two parts:
  \<open>group_datacube\<close> sorts the group by instant and stacks it into the data cube
  (the source's lines up to the construction of \<open>datacube\<close>), and
  \<open>tilefunction_spatiotemporal\<close> is the whole function.
  Python's \<open>list.sort\<close> is stable, as \<open>sort_key\<close> is; reading \<open>instant\<close> off a
  spatial key raises.
\<close>

definition group_datacube ::
  "Metadata \<Rightarrow> CollectionMetadata \<Rightarrow> Key \<times> (Key \<times> Tile) list
     \<Rightarrow> error + (Key \<times> Tile) list \<times> DataCube" where
  "group_datacube metadata openeo_metadata tiles =
     (case traverse (\<lambda>tup. instant (fst tup)) (snd tiles) of
        Inl e \<Rightarrow> Inl e
      | Inr instants \<Rightarrow>
         let tile_list = sort_key (\<lambda>tup. instant_of (fst tup)) (snd tiles);
             dates = map (\<lambda>t. instant_of (fst t)) tile_list;
             arrays = map (\<lambda>t. cells (snd t)) tile_list;
             multidim_array = Array arrays
         in case tile_list of
              [] \<Rightarrow> Inl IndexError
            | first # rest \<Rightarrow>
               (case mapTransform (layout_definition metadata) (fst first) of
                  Inl e \<Rightarrow> Inl e
                | Inr ext \<Rightarrow>
                   (case tile_to_datacube multidim_array ext
                           (if has_band_dimension openeo_metadata
                            then band_dimension_opt openeo_metadata else None)
                           (Some dates) of
                      Inl e \<Rightarrow> Inl e
                    | Inr datacube \<Rightarrow> Inr (tile_list, datacube))))"

definition tilefunction_spatiotemporal ::
  "env \<Rightarrow> string \<Rightarrow> pyval \<Rightarrow> Metadata \<Rightarrow> CollectionMetadata \<Rightarrow> Key \<times> (Key \<times> Tile) list
     \<Rightarrow> error + (Key \<times> Tile) list" where
  "tilefunction_spatiotemporal E function context metadata openeo_metadata tiles =
     (case group_datacube metadata openeo_metadata tiles of
        Inl e \<Rightarrow> Inl e
      | Inr (tile_list, datacube) \<Rightarrow>
         let data = udf_data datacube context
         in case run_user_code E function data of
              Inl e \<Rightarrow> Inl e
            | Inr result_data \<Rightarrow>
                let cubes = datacube_list result_data in
                if length cubes \<noteq> 1 then Inl (UdfContractViolation cubes)
                else
                  let result_array = array (cubes ! 0)
                  in if ''t'' \<in> set (dims result_array)
                     then Inr (map (\<lambda>(timestamp, array_slice).
                                  (SpaceTimeKey (col (fst tiles)) (row (fst tiles)) timestamp,
                                   \<lparr>cells = vals array_slice, cell_type = FLOAT32,
                                    no_data_value = no_data_value (snd (tile_list ! 0))\<rparr>))
                                (groupby_t E result_array))
                     else Inr [(SpaceTimeKey (col (fst tiles)) (row (fst tiles)) (now E),
                                \<lparr>cells = vals result_array, cell_type = FLOAT32,
                                 no_data_value = no_data_value (snd (tile_list ! 0))\<rparr>)])"

section \<open>Operations on a whole data cube\<close>

text \<open>
  Every call into the distributed tile store is recorded: a cube-level operation takes the
  log of store operations issued so far and returns it extended. A level function reports
  the store primitives it invokes next to the layer it builds.
\<close>

datatype store_op =
    ConvertDataType | ToNumpyRdd | FromNumpyRdd | ToSpatialLayer | AggregateByCell
  | MapBands | Retile | RemoveOverlap

record ImageCollection =
  pyramid :: "(int \<times> TiledRasterLayer) list"
  metadata :: CollectionMetadata

definition apply_to_levels ::
  "(TiledRasterLayer \<Rightarrow> store_op list \<times> TiledRasterLayer) \<Rightarrow> ImageCollection \<Rightarrow> store_op list
     \<Rightarrow> ImageCollection \<times> store_op list" where
  "apply_to_levels func self ops =
     (\<lparr>pyramid = map (\<lambda>(k, l). (k, snd (func l))) (pyramid self), metadata = metadata self\<rparr>,
      ops @ concat (map (\<lambda>(k, l). fst (func l)) (pyramid self)))"

text \<open>\<open>_apply_to_levels_geotrellis_rdd\<close>: the result is wrapped with the level's own kind.\<close>

definition apply_to_levels_geotrellis_rdd ::
  "(TiledRasterLayer \<Rightarrow> int \<Rightarrow> store_op list \<times> TiledRasterLayer) \<Rightarrow> ImageCollection
     \<Rightarrow> store_op list \<Rightarrow> ImageCollection \<times> store_op list" where
  "apply_to_levels_geotrellis_rdd func self ops =
     (\<lparr>pyramid = map (\<lambda>(k, l). (k, (snd (func l k))\<lparr>layer_type := layer_type l\<rparr>)) (pyramid self),
       metadata = metadata self\<rparr>,
      ops @ concat (map (\<lambda>(k, l). fst (func l k)) (pyramid self)))"

subsection \<open>\<open>apply_tiles\<close> and \<open>apply_tiles_spatiotemporal\<close>\<close>

definition rdd_function ::
  "env \<Rightarrow> string \<Rightarrow> pyval \<Rightarrow> CollectionMetadata \<Rightarrow> TiledRasterLayer \<Rightarrow> TiledRasterLayer" where
  "rdd_function E function context openeo_metadata rdd =
     from_numpy_rdd (layer_type rdd)
       (rdd_map (tilefunction E function context (layer_metadata rdd) openeo_metadata)
          (numpy_rdd (convert_data_type E FLOAT32 rdd)))
       (layer_metadata rdd)"

definition apply_tiles ::
  "env \<Rightarrow> ImageCollection \<Rightarrow> string \<Rightarrow> pyval \<Rightarrow> store_op list
     \<Rightarrow> (error + ImageCollection) \<times> store_op list" where
  "apply_tiles E self function context ops =
     (let (result, ops') =
            apply_to_levels
              (\<lambda>rdd. ([ConvertDataType, ToNumpyRdd, FromNumpyRdd],
                       rdd_function E function context (metadata self) rdd))
              self ops
      in (Inr result, ops'))"

definition spatial_key :: "Key \<times> Tile \<Rightarrow> Key" where
  "spatial_key t = SpatialKey (col (fst t)) (row (fst t))"

definition grouped_by_spatial_key ::
  "error + (Key \<times> Tile) list \<Rightarrow> error + (Key \<times> (Key \<times> Tile) list) list" where
  "grouped_by_spatial_key floatrdd =
     rdd_groupByKey (rdd_map (\<lambda>t. Inr (spatial_key t, (fst t, snd t))) floatrdd)"

definition rdd_function_spatiotemporal ::
  "env \<Rightarrow> string \<Rightarrow> pyval \<Rightarrow> CollectionMetadata \<Rightarrow> TiledRasterLayer \<Rightarrow> TiledRasterLayer" where
  "rdd_function_spatiotemporal E function context openeo_metadata rdd =
     (let floatrdd = numpy_rdd (convert_data_type E FLOAT32 rdd)
      in from_numpy_rdd SPACETIME
           (rdd_flatMap
              (tilefunction_spatiotemporal E function context (layer_metadata rdd) openeo_metadata)
              (grouped_by_spatial_key floatrdd))
           (layer_metadata rdd))"

definition apply_tiles_spatiotemporal ::
  "env \<Rightarrow> ImageCollection \<Rightarrow> string \<Rightarrow> pyval \<Rightarrow> store_op list
     \<Rightarrow> (error + ImageCollection) \<times> store_op list" where
  "apply_tiles_spatiotemporal E self function context ops =
     (case py_compile E function of
        Some e \<Rightarrow> (Inl e, ops)
      | None \<Rightarrow>
          let (result, ops') =
                apply_to_levels
                  (\<lambda>rdd. ([ConvertDataType, ToNumpyRdd, FromNumpyRdd],
                           rdd_function_spatiotemporal E function context (metadata self) rdd))
                  self ops
          in (Inr result, ops'))"

subsection \<open>Built-in reductions\<close>

definition reduce_bands ::
  "env \<Rightarrow> ImageCollection \<Rightarrow> visitor \<Rightarrow> store_op list \<Rightarrow> ImageCollection \<times> store_op list" where
  "reduce_bands E self pgVisitor ops =
     (let (float_datacube, ops1) =
            apply_to_levels (\<lambda>layer. ([ConvertDataType], convert_data_type E FLOAT32 layer)) self ops
      in apply_to_levels_geotrellis_rdd (\<lambda>rdd level. ([MapBands], mapBands E pgVisitor rdd))
           float_datacube ops1)"

text \<open>Python's \<open>upper\<close>, \<open>lower\<close> and \<open>capitalize\<close>, on ASCII letters.\<close>

definition upper_char :: "char \<Rightarrow> char" where
  "upper_char c =
     (let n = (of_char c :: nat) in if 97 \<le> n \<and> n \<le> 122 then char_of (n - 32) else c)"

definition lower_char :: "char \<Rightarrow> char" where
  "lower_char c =
     (let n = (of_char c :: nat) in if 65 \<le> n \<and> n \<le> 90 then char_of (n + 32) else c)"

definition upper :: "string \<Rightarrow> string" where
  "upper s = map upper_char s"

definition lower :: "string \<Rightarrow> string" where
  "lower s = map lower_char s"

fun capitalize :: "string \<Rightarrow> string" where
  "capitalize [] = []"
| "capitalize (c # cs) = upper_char c # lower cs"

text \<open>\<open>_normalize_temporal_reducer\<close>.\<close>

definition normalize_temporal_reducer ::
  "ImageCollection \<Rightarrow> string \<Rightarrow> string \<Rightarrow> error + string" where
  "normalize_temporal_reducer self dimension reducer =
     (case temporal_dimension (metadata self) of
        Inl e \<Rightarrow> Inl e
      | Inr tname \<Rightarrow>
          if dimension \<noteq> tname then Inl (UnsupportedDimension dimension)
          else if upper reducer \<in> set [''MIN'', ''MAX'', ''SUM'', ''MEAN'', ''VARIANCE'']
          then Inr (capitalize (lower reducer))
          else if upper reducer = ''SD'' then Inr ''StandardDeviation''
          else Inl (UnsupportedReducer reducer))"

text \<open>\<open>_aggregate_over_time_numpy\<close>, with the numpy aggregator given by name.\<close>

definition aggregate_temporally :: "env \<Rightarrow> string \<Rightarrow> TiledRasterLayer \<Rightarrow> TiledRasterLayer" where
  "aggregate_temporally E reducer layer =
     (let grouped_numpy_rdd =
            rdd_groupByKey (numpy_rdd (convert_data_type E FLOAT32 (to_spatial_layer E layer)));
          composite_rdd = rdd_map (\<lambda>(k, ts). Inr (k, composite E reducer ts)) grouped_numpy_rdd
      in from_numpy_rdd SPATIAL composite_rdd (layer_metadata layer))"

definition aggregate_over_time_numpy ::
  "env \<Rightarrow> ImageCollection \<Rightarrow> string \<Rightarrow> store_op list \<Rightarrow> ImageCollection \<times> store_op list" where
  "aggregate_over_time_numpy E self reducer ops =
     apply_to_levels
       (\<lambda>layer. ([ToSpatialLayer, ConvertDataType, ToNumpyRdd, FromNumpyRdd],
                 aggregate_temporally E reducer layer))
       self ops"

definition reduce ::
  "env \<Rightarrow> ImageCollection \<Rightarrow> string \<Rightarrow> string \<Rightarrow> store_op list
     \<Rightarrow> (error + ImageCollection) \<times> store_op list" where
  "reduce E self reducer0 dimension ops =
     (case normalize_temporal_reducer self dimension reducer0 of
        Inl e \<Rightarrow> (Inl e, ops)
      | Inr reducer \<Rightarrow>
          let (result, ops') =
            (if reducer = ''Variance'' then aggregate_over_time_numpy E self ''var_composite'' ops
             else if reducer = ''StandardDeviation''
             then aggregate_over_time_numpy E self ''std_composite'' ops
             else if reducer = ''Min'' then aggregate_over_time_numpy E self ''min_composite'' ops
             else if reducer = ''Max'' then aggregate_over_time_numpy E self ''max_composite'' ops
             else if reducer = ''Sum'' then aggregate_over_time_numpy E self ''sum_composite'' ops
             else apply_to_levels
                    (\<lambda>layer. ([ToSpatialLayer, AggregateByCell],
                              aggregate_by_cell E reducer (to_spatial_layer E layer)))
                    self ops)
          in (Inr result, ops'))"

subsection \<open>The dispatcher \<open>reduce_dimension\<close>\<close>

type_synonym process_graph = "(string \<times> (string option \<times> (string \<times> pyval) list)) list"

text \<open>\<open>GeoPySparkBackendImplementation.accept_process_graph\<close>.\<close>

definition accept_process_graph :: "env \<Rightarrow> process_graph \<Rightarrow> visitor" where
  "accept_process_graph E process_graph =
     (if length process_graph = 1 \<and> fst (snd (process_graph ! 0)) = Some ''run_udf''
      then accept_udf_graph E process_graph
      else accept_tile_graph E process_graph)"

fun processes :: "visitor \<Rightarrow> string list option" where
  "processes (SingleNodeUDFProcessGraphVisitor udf_args) = None"
| "processes (GeotrellisTileProcessGraphVisitor ps) = ps"
| "processes (OtherProcessGraphVisitor ps) = ps"

definition lift_result ::
  "(error + ImageCollection) \<times> store_op list
     \<Rightarrow> (error + ImageCollection option) \<times> store_op list" where
  "lift_result r = (case r of (Inl e, l) \<Rightarrow> (Inl e, l) | (Inr c, l) \<Rightarrow> (Inr (Some c), l))"

text \<open>
  The branch taken by \<open>reduce_dimension\<close>: the value of \<open>result_collection\<close>
  (\<open>None\<close> as initialised) when the if/elif chain is left.
\<close>

definition reduce_dimension_dispatch ::
  "env \<Rightarrow> ImageCollection \<Rightarrow> string \<Rightarrow> visitor \<Rightarrow> store_op list
     \<Rightarrow> (error + ImageCollection option) \<times> store_op list" where
  "reduce_dimension_dispatch E self dimension reducer ops =
     (case reducer of
        SingleNodeUDFProcessGraphVisitor udf_args \<Rightarrow>
          (let udf = map_of udf_args ''udf'';
               context = (case map_of udf_args ''context'' of None \<Rightarrow> PyDict [] | Some c \<Rightarrow> c)
           in case udf of
                Some (PyStr u) \<Rightarrow>
                  (case temporal_dimension (metadata self) of
                     Inl e \<Rightarrow> (Inl e, ops)
                   | Inr tname \<Rightarrow>
                       if dimension = tname
                       then lift_result (apply_tiles_spatiotemporal E self u context ops)
                       else (case band_dimension (metadata self) of
                               Inl e \<Rightarrow> (Inl e, ops)
                             | Inr b \<Rightarrow>
                                 if dimension = bd_name b
                                 then lift_result (apply_tiles E self u context ops)
                                 else (Inr None, ops)))
              | _ \<Rightarrow> (Inl UdfArgumentError, ops))
      | _ \<Rightarrow>
          if (case band_dimension_opt (metadata self) of
                None \<Rightarrow> False | Some b \<Rightarrow> dimension = bd_name b)
          then (case reduce_bands E self reducer ops of (c, l) \<Rightarrow> (Inr (Some c), l))
          else (case processes reducer of
                  Some [p] \<Rightarrow> lift_result (reduce E self p dimension ops)
                | _ \<Rightarrow> (Inl (UnsupportedCombination reducer dimension), ops)))"

definition reduce_dimension ::
  "env \<Rightarrow> ImageCollection \<Rightarrow> string \<Rightarrow> process_graph + visitor \<Rightarrow> store_op list
     \<Rightarrow> (error + ImageCollection option) \<times> store_op list" where
  "reduce_dimension E self dimension reducer0 ops =
     (let reducer = (case reducer0 of Inl pg \<Rightarrow> accept_process_graph E pg | Inr v \<Rightarrow> v)
      in case reduce_dimension_dispatch E self dimension reducer ops of
           (Inl e, l) \<Rightarrow> (Inl e, l)
         | (Inr None, l) \<Rightarrow> (Inr None, l)
         | (Inr (Some result_collection), l) \<Rightarrow>
             (case md_reduce_dimension E (metadata result_collection) dimension of
                Inl e \<Rightarrow> (Inl e, l)
              | Inr md \<Rightarrow>
                  let rc = result_collection\<lparr>metadata := md\<rparr>
                  in if temporal_dimension_opt (metadata self) = Some dimension
                        \<and> pyramid_layer_type E (pyramid self) \<noteq> SPATIAL
                     then (case apply_to_levels
                                  (\<lambda>rdd. if layer_type rdd \<noteq> SPATIAL
                                         then ([ToSpatialLayer], to_spatial_layer E rdd)
                                         else ([], rdd))
                                  rc l of
                             (c, l') \<Rightarrow> (Inr (Some c), l'))
                     else (Inr (Some rc), l)))"

subsection \<open>\<open>apply_neighborhood\<close>\<close>

text \<open>
  An entry of the \<open>size\<close> or \<open>overlap\<close> argument: a dictionary with the keys
  \<open>dimension\<close>, \<open>value\<close> and \<open>unit\<close>, the last two possibly missing.
\<close>

record window_entry =
  we_dimension :: string
  we_value :: "pyval option"
  we_unit :: "string option"

definition py_int :: "env \<Rightarrow> pyval \<Rightarrow> error + int" where
  "py_int E v =
     (case v of
        PyInt n \<Rightarrow> Inr n
      | PyStr s \<Rightarrow> int_of_str E s
      | PyNone \<Rightarrow> Inl TypeError
      | PyDict d \<Rightarrow> Inl TypeError)"

text \<open>\<open>{e['dimension']: e for e in entries}\<close>: a later entry replaces an earlier one.\<close>

definition by_dimension :: "window_entry list \<Rightarrow> string \<Rightarrow> window_entry option" where
  "by_dimension entries = map_of (rev (map (\<lambda>e. (we_dimension e, e)) entries))"

definition unit_of :: "window_entry list \<Rightarrow> string \<Rightarrow> string option" where
  "unit_of entries d = (case by_dimension entries d of None \<Rightarrow> None | Some e \<Rightarrow> we_unit e)"

definition int_value :: "env \<Rightarrow> window_entry \<Rightarrow> error + int" where
  "int_value E e = (case we_value e of None \<Rightarrow> Inl KeyError | Some v \<Rightarrow> py_int E v)"

definition value_is_None :: "window_entry option \<Rightarrow> bool" where
  "value_is_None temporal_size =
     (case temporal_size of
        None \<Rightarrow> True
      | Some e \<Rightarrow> we_value e = None \<or> we_value e = Some PyNone)"

definition is_P1D :: "window_entry option \<Rightarrow> bool" where
  "is_P1D temporal_size =
     (case temporal_size of None \<Rightarrow> False | Some e \<Rightarrow> we_value e = Some (PyStr ''P1D''))"

text \<open>The dispatch of \<open>apply_neighborhood\<close> on the retiled cube.\<close>

definition apply_neighborhood_dispatch ::
  "env \<Rightarrow> ImageCollection \<Rightarrow> ImageCollection \<Rightarrow> visitor \<Rightarrow> window_entry option
     \<Rightarrow> window_entry option \<Rightarrow> store_op list \<Rightarrow> (error + ImageCollection) \<times> store_op list" where
  "apply_neighborhood_dispatch E self retiled_collection process temporal_size temporal_overlap ops =
     (case process of
        SingleNodeUDFProcessGraphVisitor udf_args \<Rightarrow>
          (let udf = map_of udf_args ''udf'';
               context = (case map_of udf_args ''context'' of None \<Rightarrow> PyDict [] | Some c \<Rightarrow> c)
           in case udf of
                Some (PyStr u) \<Rightarrow>
                  if value_is_None temporal_size
                  then apply_tiles_spatiotemporal E retiled_collection u context ops
                  else if is_P1D temporal_size \<and> temporal_overlap = None
                  then apply_tiles E retiled_collection u context ops
                  else (Inl UnsupportedTemporalWindow, ops)
              | _ \<Rightarrow> (Inl UdfArgumentError, ops))
      | GeotrellisTileProcessGraphVisitor ps \<Rightarrow>
          if value_is_None temporal_size then (Inl OnlyBandCallbacks, ops)
          else if is_P1D temporal_size \<and> temporal_overlap = None
          then (case reduce_bands E self process ops of (c, l) \<Rightarrow> (Inr c, l))
          else (Inl OnlyBandCallbacks, ops)
      | OtherProcessGraphVisitor ps \<Rightarrow> (Inl OnlySingleUdf, ops))"

text \<open>
  \<open>apply_neighborhood\<close> in two parts. \<open>apply_neighborhood_arguments\<close> is the function's
  text up to the call of \<open>retile\<close>: the checks of the spatial dimensions, of the units and
  of the window sizes, and the conversions of the values, in the source's order; it yields
  \<open>(sizeX, sizeY, overlap_x_value, overlap_y_value)\<close>. \<open>apply_neighborhood\<close> continues
  with the retiling, the dispatch and the removal of the overlap.
\<close>

definition apply_neighborhood_arguments ::
  "env \<Rightarrow> ImageCollection \<Rightarrow> window_entry list \<Rightarrow> window_entry list
     \<Rightarrow> error + int \<times> int \<times> int \<times> int" where
  "apply_neighborhood_arguments E self size_arg overlap =
     (let spatial_dims = spatial_dimensions (metadata self) in
      if length spatial_dims \<noteq> 2 then Inl (UnexpectedSpatialDimensions spatial_dims)
      else
        let x = spatial_dims ! 0;
            y = spatial_dims ! 1;
            size_dict = by_dimension size_arg;
            overlap_dict = by_dimension overlap
        in
        if (case size_dict x of None \<Rightarrow> None | Some e \<Rightarrow> we_unit e) \<noteq> Some ''px''
           \<or> (case size_dict y of None \<Rightarrow> None | Some e \<Rightarrow> we_unit e) \<noteq> Some ''px''
        then Inl (InvalidUnit WindowSizes)
        else
          case (case size_dict x of None \<Rightarrow> Inl KeyError | Some e \<Rightarrow> int_value E e) of
            Inl e \<Rightarrow> Inl e
          | Inr sizeX \<Rightarrow>
         (case (case size_dict y of None \<Rightarrow> Inl KeyError | Some e \<Rightarrow> int_value E e) of
            Inl e \<Rightarrow> Inl e
          | Inr sizeY \<Rightarrow>
            if sizeX < 32 \<or> sizeY < 32 then Inl WindowTooSmall
            else
              let overlap_x = (case overlap_dict x of
                                 None \<Rightarrow> \<lparr>we_dimension = x, we_value = Some (PyInt 0),
                                          we_unit = Some ''px''\<rparr>
                               | Some e \<Rightarrow> e);
                  overlap_y = (case overlap_dict y of
                                 None \<Rightarrow> \<lparr>we_dimension = y, we_value = Some (PyInt 0),
                                          we_unit = Some ''px''\<rparr>
                               | Some e \<Rightarrow> e)
              in
              if we_unit overlap_x \<noteq> Some ''px'' \<or> we_unit overlap_y \<noteq> Some ''px''
              then Inl (InvalidUnit OverlapSizes)
              else
                case int_value E overlap_x of
                  Inl e \<Rightarrow> Inl e
                | Inr overlap_x_value \<Rightarrow>
                   (case int_value E overlap_y of
                      Inl e \<Rightarrow> Inl e
                    | Inr overlap_y_value \<Rightarrow>
                        Inr (sizeX, sizeY, overlap_x_value, overlap_y_value))))"

definition apply_neighborhood ::
  "env \<Rightarrow> ImageCollection \<Rightarrow> process_graph \<Rightarrow> window_entry list \<Rightarrow> window_entry list
     \<Rightarrow> store_op list \<Rightarrow> (error + ImageCollection) \<times> store_op list" where
  "apply_neighborhood E self process size_arg overlap ops =
     (case apply_neighborhood_arguments E self size_arg overlap of
        Inl e \<Rightarrow> (Inl e, ops)
      | Inr (sizeX, sizeY, overlap_x_value, overlap_y_value) \<Rightarrow>
         (case apply_to_levels_geotrellis_rdd
                 (\<lambda>rdd level. ([Retile],
                    retile E sizeX sizeY overlap_x_value overlap_y_value rdd))
                 self ops of
            (retiled_collection, ops1) \<Rightarrow>
              let process' = accept_process_graph E process;
                  temporal_size =
                    (case temporal_dimension_opt (metadata self) of
                       None \<Rightarrow> None | Some tname \<Rightarrow> by_dimension size_arg tname);
                  temporal_overlap =
                    (case temporal_dimension_opt (metadata self) of
                       None \<Rightarrow> None | Some tname \<Rightarrow> by_dimension overlap tname)
              in case apply_neighborhood_dispatch E self retiled_collection process'
                        temporal_size temporal_overlap ops1 of
                   (Inl e, ops2) \<Rightarrow> (Inl e, ops2)
                 | (Inr result_collection, ops2) \<Rightarrow>
                     if overlap_x_value > 0 \<or> overlap_y_value > 0
                     then (case apply_to_levels_geotrellis_rdd
                                  (\<lambda>rdd level. ([RemoveOverlap],
                                     remove_overlap E sizeX sizeY overlap_x_value
                                       overlap_y_value rdd))
                                  result_collection ops2 of
                             (c, ops3) \<Rightarrow> (Inr c, ops3))
                     else (Inr result_collection, ops2)))"

section \<open>Folding with failure\<close>


section \<open>Stitching\<close>

text \<open>
  numpy helpers. \<open>arange a b\<close> is \<open>np.arange(a, b)\<close> on integers. \<open>intersect1d\<close> is
  \<open>np.intersect1d(ar1, ar2, True, True)\<close> on arrays without repeated values: the sorted
  common values, their positions in \<open>ar1\<close> and their positions in \<open>ar2\<close>.
\<close>

definition arange :: "int \<Rightarrow> int \<Rightarrow> int list" where
  "arange a b = [a..b - 1]"

















section \<open>Example inputs\<close>

text \<open>
  Concrete inputs on which the theorems below are exercised: a 2 x 2 grid of 4 x 4 tiles, a
  cube with a temporal dimension \<open>t\<close> and a band dimension \<open>bands\<close>, and
  collaborators that run three user functions (\<open>identity\<close> returns its input,
  \<open>nothing\<close> returns no data cube, any other fails) and reject the source text
  \<open>def (\<close> as a syntax error.
\<close>

definition example_layout :: LayoutDefinition where
  "example_layout =
     \<lparr>extent = \<lparr>xmin = 0, ymin = 0, xmax = 8, ymax = 8\<rparr>,
      tileLayout = \<lparr>layoutCols = 2, layoutRows = 2, tileCols = 4, tileRows = 4\<rparr>\<rparr>"

definition example_metadata :: Metadata where
  "example_metadata =
     \<lparr>layout_definition = example_layout,
      bounds = \<lparr>minKey = SpaceTimeKey 0 0 1, maxKey = SpaceTimeKey 1 1 3\<rparr>,
      md_no_data_value = Some (Val (-1)), crs = ''EPSG:4326''\<rparr>"

definition example_openeo_metadata :: CollectionMetadata where
  "example_openeo_metadata =
     \<lparr>temporal_dimension_opt = Some ''t'',
      band_dimension_opt = Some \<lparr>bd_name = ''bands'', band_names = [''B04'']\<rparr>,
      spatial_dimensions = [''x'', ''y'']\<rparr>"

definition fill_tile :: "nat \<Rightarrow> real \<Rightarrow> CellType \<Rightarrow> real \<Rightarrow> Tile" where
  "fill_tile n v ct nd =
     \<lparr>cells = Array [Array (replicate n (Array (replicate n (Scalar (Val v)))))],
      cell_type = ct, no_data_value = Some (Val nd)\<rparr>"

definition example_groupby_t :: "DataArray \<Rightarrow> (int \<times> DataArray) list" where
  "example_groupby_t a =
     (case (map_of (coords a) ''t'', vals a) of
        (Some (TimeCoord (Some ts)), Array xs) \<Rightarrow>
          zip ts (map (\<lambda>x. a\<lparr>vals := x, dims := tl (dims a)\<rparr>) xs)
      | _ \<Rightarrow> [])"

definition example_env :: env where
  "example_env =
     \<lparr>py_compile = (\<lambda>f. if f = ''def ('' then Some SyntaxError else None),
      run_user_code = (\<lambda>f d. if f = ''identity'' then Inr d
                              else if f = ''nothing'' then Inr (d\<lparr>datacube_list := []\<rparr>)
                              else Inl (UdfExecutionError f)),
      groupby_t = example_groupby_t,
      now = 0,
      convert_data_type = (\<lambda>ct l. l\<lparr>numpy_rdd :=
                              map_sum id (map (\<lambda>(k, t). (k, t\<lparr>cell_type := ct\<rparr>))) (numpy_rdd l)\<rparr>),
      to_spatial_layer = (\<lambda>l. l\<lparr>layer_type := SPATIAL\<rparr>),
      aggregate_by_cell = (\<lambda>r l. l),
      mapBands = (\<lambda>v l. l),
      retile = (\<lambda>sx sy ox oy l. l),
      remove_overlap = (\<lambda>sx sy ox oy l. l),
      composite = (\<lambda>n ts. case ts of [] \<Rightarrow> fill_tile 4 0 FLOAT32 0 | t # r \<Rightarrow> t),
      md_reduce_dimension = (\<lambda>md d. Inr md),
      pyramid_layer_type = (\<lambda>lv. case lv of [] \<Rightarrow> SPATIAL | (k, l) # r \<Rightarrow> layer_type l),
      accept_udf_graph = (\<lambda>pg. SingleNodeUDFProcessGraphVisitor
                                   (case pg of [] \<Rightarrow> [] | (i, (p, args)) # r \<Rightarrow> args)),
      accept_tile_graph = (\<lambda>pg. GeotrellisTileProcessGraphVisitor (Some (map fst pg))),
      int_of_str = (\<lambda>s. Inl ValueError),
      uninitialized = (\<lambda>k i j. NaN)\<rparr>"

definition example_level :: TiledRasterLayer where
  "example_level =
     \<lparr>layer_type = SPACETIME, layer_metadata = example_metadata,
      numpy_rdd = Inr [(SpaceTimeKey 0 0 2, fill_tile 2 5 INT32 255),
                       (SpaceTimeKey 0 0 1, fill_tile 2 7 INT32 (-1)),
                       (SpaceTimeKey 1 0 1, fill_tile 2 1 INT32 (-1)),
                       (SpaceTimeKey 1 0 2, fill_tile 2 3 INT32 (-1))]\<rparr>"

definition example_group :: "Key \<times> (Key \<times> Tile) list" where
  "example_group =
     (SpatialKey 0 0, [(SpaceTimeKey 0 0 2, fill_tile 2 5 FLOAT32 255),
                       (SpaceTimeKey 0 0 1, fill_tile 2 7 FLOAT32 (-1))])"

definition example_cube :: ImageCollection where
  "example_cube = \<lparr>pyramid = [(0, example_level)], metadata = example_openeo_metadata\<rparr>"

text \<open>A cube that declares the temporal dimension only, as \<open>load_disk_data\<close> builds it.\<close>

definition temporal_cube :: ImageCollection where
  "temporal_cube =
     \<lparr>pyramid = [(0, example_level)],
      metadata = \<lparr>temporal_dimension_opt = Some ''t'', band_dimension_opt = None,
                  spatial_dimensions = []\<rparr>\<rparr>"


definition px_window :: "int \<Rightarrow> string \<Rightarrow> window_entry list" where
  "px_window n u =
     [\<lparr>we_dimension = ''x'', we_value = Some (PyInt n), we_unit = Some u\<rparr>,
      \<lparr>we_dimension = ''y'', we_value = Some (PyInt n), we_unit = Some u\<rparr>]"

definition example_tiles :: "(Key \<times> Tile) list" where
  "example_tiles =
     [(SpaceTimeKey 0 0 2, fill_tile 2 5 FLOAT32 255),
      (SpaceTimeKey 0 0 1, fill_tile 2 7 FLOAT32 (-1)),
      (SpaceTimeKey 1 0 1, fill_tile 2 1 FLOAT32 (-1)),
      (SpaceTimeKey 1 0 2, fill_tile 2 3 FLOAT32 (-1))]"




section \<open>Verified properties\<close>

subsection \<open>Auxiliary facts\<close>

lemma traverse_Inr: "traverse (\<lambda>x. Inr (f x)) xs = Inr (map f xs)"
  by (induction xs) auto

lemma traverse_id: "(\<And>x. x \<in> set xs \<Longrightarrow> f x = Inr x) \<Longrightarrow> traverse f xs = Inr xs"
  by (induction xs) auto

lemma traverse_instant:
  "\<forall>t \<in> set g. is_spacetime (fst t) \<Longrightarrow>
     traverse (\<lambda>tup. instant (fst tup)) g = Inr (map (\<lambda>tup. instant_of (fst tup)) g)"
proof (induction g)
  case Nil
  then show ?case by simp
next
  case (Cons a g)
  then show ?case by (cases "fst a") auto
qed

lemma map_insort_key: "map f (insort_key f x xs) = insort (f x) (map f xs)"
  by (induction xs) auto

lemma map_sort_key: "map f (sort_key f xs) = sort (map f xs)"
  by (induction xs) (auto simp: map_insort_key)

lemma grouped_by_spatial_key_Inr:
  "grouped_by_spatial_key (Inr ts)
     = Inr (map (\<lambda>k. (k, filter (\<lambda>t. spatial_key t = k) ts)) (remdups (map spatial_key ts)))"
  by (simp add: grouped_by_spatial_key_def rdd_groupByKey_def rdd_map_def traverse_Inr
        groupByKey_def comp_def filter_map)

lemma key_from_parts:
  "is_spacetime k \<Longrightarrow> is_spacetime k' \<Longrightarrow> col k = col k' \<Longrightarrow> row k = row k'
     \<Longrightarrow> instant_of k = instant_of k' \<Longrightarrow> k = k'"
  by (cases k; cases k') auto

lemma traverse_cong:
  "(\<And>x. x \<in> set xs \<Longrightarrow> f x = g x) \<Longrightarrow> traverse f xs = traverse g xs"
  by (induction xs) (auto split: sum.splits)

lemma rdd_flatMap_cong:
  "(\<And>x. x \<in> set xs \<Longrightarrow> f x = g x) \<Longrightarrow> rdd_flatMap f (Inr xs) = rdd_flatMap g (Inr xs)"
  by (simp add: rdd_flatMap_def rdd_map_def traverse_cong [of xs f g])

lemma group_distinct_instants:
  assumes st: "\<forall>t \<in> set ts. is_spacetime (fst t)"
    and d: "distinct (map fst ts)"
  shows "distinct (map (\<lambda>u. instant_of (fst u)) (filter (\<lambda>t. spatial_key t = k) ts))"
proof -
  let ?g = "filter (\<lambda>t. spatial_key t = k) ts"
  have dg: "distinct (map fst ?g)" using d by (simp add: distinct_map_filter)
  have inj: "inj_on (\<lambda>k. instant_of k) (set (map fst ?g))"
  proof (rule inj_onI)
    fix a b assume a: "a \<in> set (map fst ?g)" and b: "b \<in> set (map fst ?g)"
      and e: "instant_of a = instant_of b"
    from a obtain ta where ta: "ta \<in> set ts" "spatial_key ta = k" "fst ta = a" by auto
    from b obtain tb where tb: "tb \<in> set ts" "spatial_key tb = k" "fst tb = b" by auto
    have "is_spacetime a" "is_spacetime b" using st ta tb by auto
    moreover have "col a = col b" "row a = row b"
      using ta tb by (auto simp: spatial_key_def)
    ultimately show "a = b" using e by (rule key_from_parts)
  qed
  have "distinct (map (\<lambda>k. instant_of k) (map fst ?g))"
    using dg inj unfolding distinct_map [of "\<lambda>k. instant_of k"] by blast
  then show ?thesis
    unfolding map_map comp_def .
qed

lemma group_size:
  assumes st: "\<forall>t \<in> set ts. is_spacetime (fst t)"
    and d: "distinct (map fst ts)"
  shows "length (filter (\<lambda>t. spatial_key t = k) ts)
           = card (set (map (\<lambda>u. instant_of (fst u)) (filter (\<lambda>u. spatial_key u = k) ts)))"
proof -
  let ?g = "filter (\<lambda>t. spatial_key t = k) ts"
  have "card (set (map (\<lambda>u. instant_of (fst u)) ?g)) = length (map (\<lambda>u. instant_of (fst u)) ?g)"
    using group_distinct_instants [OF st d] by (rule distinct_card)
  then show ?thesis by simp
qed

lemma group_datacube_stacked:
  assumes st: "\<forall>t \<in> set g. is_spacetime (fst t)"
    and ne: "g \<noteq> []"
    and sh: "\<forall>t \<in> set g. shape (cells (snd t)) = [nb, h, w]"
    and lc: "layoutCols (tileLayout (layout_definition md)) \<noteq> 0"
    and lr: "layoutRows (tileLayout (layout_definition md)) \<noteq> 0"
  shows "group_datacube md om (k, g) =
           (if (case band_dimension_opt om of None \<Rightarrow> True | Some b \<Rightarrow> length (band_names b) = nb)
            then Inr (sort_key (\<lambda>t. instant_of (fst t)) g,
                      DataCube
                        \<lparr>vals = Array (map (\<lambda>t. cells (snd t)) (sort_key (\<lambda>t. instant_of (fst t)) g)),
                         dims = [''t'', ''bands'', ''x'', ''y''],
                         coords = (''t'', TimeCoord (Some (map (\<lambda>t. instant_of (fst t))
                                                        (sort_key (\<lambda>t. instant_of (fst t)) g))))
                                  # (case band_dimension_opt om of
                                       None \<Rightarrow> []
                                     | Some b \<Rightarrow> [(''bands'', BandCoord (band_names b))]),
                         name = ''openEODataChunk''\<rparr>)
            else Inl ValueError)"
proof -
  let ?s = "sort_key (\<lambda>t. instant_of (fst t)) g"
  from ne have "?s \<noteq> []" by (metis length_sort length_0_conv)
  then obtain first rest where s: "?s = first # rest" by (cases ?s) auto
  have "first \<in> set ?s" using s by simp
  then have fg: "first \<in> set g" by simp
  have shf: "shape (cells (snd first)) = [nb, h, w]" using sh fg by simp
  have len: "length rest = length g - 1"
    using arg_cong [OF s, of length] by simp
  obtain ext where ext: "mapTransform (layout_definition md) (fst first) = Inr ext"
    using lc lr by (simp add: mapTransform_def Let_def)
  show ?thesis
    using traverse_instant [OF st] s ext shf
    by (simp add: group_datacube_def Let_def tile_to_datacube_def xr_DataArray_def
          has_band_dimension_def split: option.splits)
qed

lemma group_datacube_tile_list:
  "group_datacube md om tiles = Inr (tile_list, dc)
     \<Longrightarrow> tile_list = sort_key (\<lambda>tup. instant_of (fst tup)) (snd tiles)"
  by (auto simp: group_datacube_def Let_def split: sum.splits list.splits)

lemma tilefunction_identity:
  assumes idf: "\<forall>d. run_user_code E function d = Inr d"
    and bd: "band_dimension_opt om = Some b"
    and sh: "shape (cells (snd gt)) = [length (band_names b), h, w]"
    and lc: "layoutCols (tileLayout (layout_definition md)) \<noteq> 0"
    and lr: "layoutRows (tileLayout (layout_definition md)) \<noteq> 0"
  shows "tilefunction E function context md om gt = Inr gt"
proof -
  obtain ext where ext: "mapTransform (layout_definition md) (fst gt) = Inr ext"
    using lc lr by (simp add: mapTransform_def Let_def)
  show ?thesis
    using ext bd idf sh
    by (simp add: tilefunction_def band_dimension_def udf_data_def tile_to_datacube_def
          xr_DataArray_def Let_def prod_eq_iff)
qed

text \<open>
  With the identity user function, on a cube that declares a band dimension whose names
  label the bands of every tile, \<open>apply_tiles\<close> returns every level coerced to
  \<open>FLOAT32\<close>.
\<close>

lemma apply_tiles_identity_with_band_dimension:
  assumes idf: "\<forall>d. run_user_code E function d = Inr d"
    and bd: "band_dimension_opt (metadata self) = Some b"
    and fit: "\<forall>(k, l) \<in> set (pyramid self). \<forall>ts. numpy_rdd (convert_data_type E FLOAT32 l) = Inr ts \<longrightarrow>
                (\<forall>t \<in> set ts. \<exists>h w. shape (cells (snd t)) = [length (band_names b), h, w])"
    and lay: "\<forall>(k, l) \<in> set (pyramid self).
                layoutCols (tileLayout (layout_definition (layer_metadata l))) \<noteq> 0
              \<and> layoutRows (tileLayout (layout_definition (layer_metadata l))) \<noteq> 0"
  shows "\<exists>result ops'.
           apply_tiles E self function context ops = (Inr result, ops')
         \<and> metadata result = metadata self
         \<and> pyramid result
             = map (\<lambda>(k, l). (k, \<lparr>layer_type = layer_type l, layer_metadata = layer_metadata l,
                                   numpy_rdd = numpy_rdd (convert_data_type E FLOAT32 l)\<rparr>))
                 (pyramid self)"
proof -
  have lvl: "rdd_function E function context (metadata self) l
               = \<lparr>layer_type = layer_type l, layer_metadata = layer_metadata l,
                  numpy_rdd = numpy_rdd (convert_data_type E FLOAT32 l)\<rparr>"
    if kl: "(k, l) \<in> set (pyramid self)" for k l
  proof -
    from kl lay
    have lc: "layoutCols (tileLayout (layout_definition (layer_metadata l))) \<noteq> 0"
      and lr: "layoutRows (tileLayout (layout_definition (layer_metadata l))) \<noteq> 0"
      by auto
    have "rdd_map (tilefunction E function context (layer_metadata l) (metadata self))
            (numpy_rdd (convert_data_type E FLOAT32 l))
          = numpy_rdd (convert_data_type E FLOAT32 l)"
    proof (cases "numpy_rdd (convert_data_type E FLOAT32 l)")
      case (Inl e)
      then show ?thesis by (simp add: rdd_map_def)
    next
      case (Inr ts)
      have "tilefunction E function context (layer_metadata l) (metadata self) t = Inr t"
        if "t \<in> set ts" for t
      proof -
        from fit kl Inr that obtain h w where
          "shape (cells (snd t)) = [length (band_names b), h, w]" by blast
        then show ?thesis by (rule tilefunction_identity [OF idf bd _ lc lr])
      qed
      then show ?thesis using Inr by (simp add: rdd_map_def traverse_id)
    qed
    then show ?thesis by (simp add: rdd_function_def from_numpy_rdd_def)
  qed
  have "map (\<lambda>(k, l). (k, snd ([ConvertDataType, ToNumpyRdd, FromNumpyRdd],
                              rdd_function E function context (metadata self) l))) (pyramid self)
        = map (\<lambda>(k, l). (k, \<lparr>layer_type = layer_type l, layer_metadata = layer_metadata l,
                                   numpy_rdd = numpy_rdd (convert_data_type E FLOAT32 l)\<rparr>))
                 (pyramid self)"
    by (rule map_cong) (auto simp: lvl)
  then show ?thesis
    by (simp add: apply_tiles_def apply_to_levels_def)
qed

subsection \<open>Grouping by spatial key\<close>

text \<open>
  Claim C1. Take any level of the cube whose float-coerced tile collection is
  spatiotemporal (every key carries an instant, no key occurs twice), has \<open>M\<close> instants
  for every spatial key and consists of (bands, x, y) grids of one shape, on a layout with a
  non-empty grid. Then \<open>apply_tiles_spatiotemporal\<close> returns a cube whose level at the
  same position is computed as follows. The tiles are grouped by spatial key (column, row)
  over all instants: there is exactly one group per distinct spatial key, so \<open>N\<close>
  groups for \<open>N\<close> spatial keys, and a group holds exactly the tiles of its key and has
  size \<open>M\<close>. Within a group the tiles are sorted by instant, which lists the tiles of
  the group in strictly ascending order of their instants, and the user function is run on
  the array that stacks their cells in that order, with the dimensions
  \<open>t, bands, x, y\<close> and the sorted instants as \<open>t\<close> coordinate (and the band names
  as \<open>bands\<close> coordinate when the cube declares a band dimension; if they do not label
  the bands of the tiles, building the array raises \<open>ValueError\<close>). The tiles of the
  result level are those rebuilt from the results of the user function, group after group.
\<close>

theorem spatiotemporal_grouping:
  assumes comp: "py_compile E function = None"
    and i: "i < length (pyramid self)"
    and lvl: "pyramid self ! i = (z, l)"
    and ts: "numpy_rdd (convert_data_type E FLOAT32 l) = Inr ts"
    and st: "\<forall>t \<in> set ts. is_spacetime (fst t)"
    and d: "distinct (map fst ts)"
    and M: "\<forall>k \<in> (\<lambda>t. SpatialKey (col (fst t)) (row (fst t))) ` set ts.
              card (set (map (\<lambda>u. instant_of (fst u))
                           (filter (\<lambda>u. SpatialKey (col (fst u)) (row (fst u)) = k) ts))) = M"
    and sh: "\<forall>t \<in> set ts. shape (cells (snd t)) = [nb, h, w]"
    and lc: "layoutCols (tileLayout (layout_definition (layer_metadata l))) \<noteq> 0"
    and lr: "layoutRows (tileLayout (layout_definition (layer_metadata l))) \<noteq> 0"
  shows "\<exists>result ops' groups.
           apply_tiles_spatiotemporal E self function context ops = (Inr result, ops')
         \<and> length (pyramid result) = length (pyramid self)
         \<and> fst (pyramid result ! i) = z
         \<and> length groups = card ((\<lambda>t. SpatialKey (col (fst t)) (row (fst t))) ` set ts)
         \<and> distinct (map fst groups)
         \<and> fst ` set groups = (\<lambda>t. SpatialKey (col (fst t)) (row (fst t))) ` set ts
         \<and> (\<forall>(k, g) \<in> set groups.
               length g = M
             \<and> set g = {t \<in> set ts. SpatialKey (col (fst t)) (row (fst t)) = k}
             \<and> set (sort_key (\<lambda>t. instant_of (fst t)) g) = set g
             \<and> length (sort_key (\<lambda>t. instant_of (fst t)) g) = M
             \<and> sorted_wrt (<) (map (\<lambda>t. instant_of (fst t)) (sort_key (\<lambda>t. instant_of (fst t)) g)))
         \<and> numpy_rdd (snd (pyramid result ! i))
             = rdd_flatMap
                 (\<lambda>(k, g).
                    let tile_list = sort_key (\<lambda>t. instant_of (fst t)) g;
                        stacked =
                          \<lparr>vals = Array (map (\<lambda>t. cells (snd t)) tile_list),
                           dims = [''t'', ''bands'', ''x'', ''y''],
                           coords = (''t'', TimeCoord (Some (map (\<lambda>t. instant_of (fst t)) tile_list)))
                                    # (case band_dimension_opt (metadata self) of
                                         None \<Rightarrow> []
                                       | Some b \<Rightarrow> [(''bands'', BandCoord (band_names b))]),
                           name = ''openEODataChunk''\<rparr>
                    in if (case band_dimension_opt (metadata self) of
                             None \<Rightarrow> True
                           | Some b \<Rightarrow> length (band_names b) = nb)
                       then (case run_user_code E function (udf_data (DataCube stacked) context) of
                               Inl e \<Rightarrow> Inl e
                             | Inr result_data \<Rightarrow>
                                 let cubes = datacube_list result_data in
                                 if length cubes \<noteq> 1 then Inl (UdfContractViolation cubes)
                                 else
                                   let result_array = array (cubes ! 0)
                                   in if ''t'' \<in> set (dims result_array)
                                      then Inr (map (\<lambda>(timestamp, array_slice).
                                                   (SpaceTimeKey (col k) (row k) timestamp,
                                                    \<lparr>cells = vals array_slice, cell_type = FLOAT32,
                                                     no_data_value = no_data_value (snd (tile_list ! 0))\<rparr>))
                                                 (groupby_t E result_array))
                                      else Inr [(SpaceTimeKey (col k) (row k) (now E),
                                                 \<lparr>cells = vals result_array, cell_type = FLOAT32,
                                                  no_data_value = no_data_value (snd (tile_list ! 0))\<rparr>)])
                       else Inl ValueError)
                 (Inr groups)"
proof -
  have sk: "spatial_key = (\<lambda>t. SpatialKey (col (fst t)) (row (fst t)))"
    by (rule ext) (simp add: spatial_key_def)
  have M: "\<forall>k \<in> spatial_key ` set ts.
              card (set (map (\<lambda>u. instant_of (fst u)) (filter (\<lambda>u. spatial_key u = k) ts))) = M"
    using M unfolding sk by assumption
  let ?md = "layer_metadata l" and ?om = "metadata self"
  let ?groups = "map (\<lambda>k. (k, filter (\<lambda>t. spatial_key t = k) ts)) (remdups (map spatial_key ts))"
  let ?F = "\<lambda>(k, g).
                    let tile_list = sort_key (\<lambda>t. instant_of (fst t)) g;
                        stacked =
                          \<lparr>vals = Array (map (\<lambda>t. cells (snd t)) tile_list),
                           dims = [''t'', ''bands'', ''x'', ''y''],
                           coords = (''t'', TimeCoord (Some (map (\<lambda>t. instant_of (fst t)) tile_list)))
                                    # (case band_dimension_opt (metadata self) of
                                         None \<Rightarrow> []
                                       | Some b \<Rightarrow> [(''bands'', BandCoord (band_names b))]),
                           name = ''openEODataChunk''\<rparr>
                    in if (case band_dimension_opt (metadata self) of
                             None \<Rightarrow> True
                           | Some b \<Rightarrow> length (band_names b) = nb)
                       then (case run_user_code E function (udf_data (DataCube stacked) context) of
                               Inl e \<Rightarrow> Inl e
                             | Inr result_data \<Rightarrow>
                                 let cubes = datacube_list result_data in
                                 if length cubes \<noteq> 1 then Inl (UdfContractViolation cubes)
                                 else
                                   let result_array = array (cubes ! 0)
                                   in if ''t'' \<in> set (dims result_array)
                                      then Inr (map (\<lambda>(timestamp, array_slice).
                                                   (SpaceTimeKey (col k) (row k) timestamp,
                                                    \<lparr>cells = vals array_slice, cell_type = FLOAT32,
                                                     no_data_value = no_data_value (snd (tile_list ! 0))\<rparr>))
                                                 (groupby_t E result_array))
                                      else Inr [(SpaceTimeKey (col k) (row k) (now E),
                                                 \<lparr>cells = vals result_array, cell_type = FLOAT32,
                                                  no_data_value = no_data_value (snd (tile_list ! 0))\<rparr>)])
                       else Inl ValueError"
  let ?result = "\<lparr>pyramid = map (\<lambda>(k, l). (k, rdd_function_spatiotemporal E function context ?om l))
                                (pyramid self),
                  metadata = ?om\<rparr>"
  let ?ops = "ops @ concat (map (\<lambda>(k, l). [ConvertDataType, ToNumpyRdd, FromNumpyRdd]) (pyramid self))"
  have app: "apply_tiles_spatiotemporal E self function context ops = (Inr ?result, ?ops)"
    using comp by (simp add: apply_tiles_spatiotemporal_def apply_to_levels_def case_prod_unfold)
  have len: "length (pyramid ?result) = length (pyramid self)" by simp
  have nth: "pyramid ?result ! i = (z, rdd_function_spatiotemporal E function context ?om l)"
    using i lvl by simp
  have rdd: "numpy_rdd (rdd_function_spatiotemporal E function context ?om l)
               = rdd_flatMap (tilefunction_spatiotemporal E function context ?md ?om) (Inr ?groups)"
    by (simp add: rdd_function_spatiotemporal_def from_numpy_rdd_def ts grouped_by_spatial_key_Inr
          Let_def)
  have lg: "length ?groups = card (spatial_key ` set ts)"
    by (simp add: length_remdups_card_conv)
  have dist: "distinct (map fst ?groups)" by (simp add: comp_def)
  have keys: "fst ` set ?groups = spatial_key ` set ts" by force
  have grp: "length g = M \<and> set g = {t \<in> set ts. spatial_key t = k} \<and> g \<noteq> []
             \<and> distinct (map (\<lambda>t. instant_of (fst t)) g)"
    if kg: "(k, g) \<in> set ?groups" for k g
  proof -
    from kg have k: "k \<in> spatial_key ` set ts" and gdef: "g = filter (\<lambda>t. spatial_key t = k) ts"
      by auto
    have "length g
            = card (set (map (\<lambda>u. instant_of (fst u)) (filter (\<lambda>u. spatial_key u = k) ts)))"
      unfolding gdef by (rule group_size [OF st d])
    also have "\<dots> = M" using M k by blast
    finally have "length g = M" .
    moreover have "set g = {t \<in> set ts. spatial_key t = k}" using gdef by auto
    moreover from k have "g \<noteq> []" using gdef by (auto simp: filter_empty_conv)
    moreover have "distinct (map (\<lambda>t. instant_of (fst t)) g)"
      unfolding gdef by (rule group_distinct_instants [OF st d])
    ultimately show ?thesis by simp
  qed
  have each: "\<forall>(k, g) \<in> set ?groups.
               length g = M
             \<and> set g = {t \<in> set ts. spatial_key t = k}
             \<and> set (sort_key (\<lambda>t. instant_of (fst t)) g) = set g
             \<and> length (sort_key (\<lambda>t. instant_of (fst t)) g) = M
             \<and> sorted_wrt (<) (map (\<lambda>t. instant_of (fst t)) (sort_key (\<lambda>t. instant_of (fst t)) g))"
  proof (clarify)
    fix k g assume kg: "(k, g) \<in> set ?groups"
    note f = grp [OF kg]
    have "distinct (map (\<lambda>t. instant_of (fst t)) (sort_key (\<lambda>t. instant_of (fst t)) g))"
      using f by (simp add: map_sort_key)
    then have "sorted_wrt (<) (map (\<lambda>t. instant_of (fst t)) (sort_key (\<lambda>t. instant_of (fst t)) g))"
      by (simp add: strict_sorted_iff sorted_sort_key)
    then show "length g = M
             \<and> set g = {t \<in> set ts. spatial_key t = k}
             \<and> set (sort_key (\<lambda>t. instant_of (fst t)) g) = set g
             \<and> length (sort_key (\<lambda>t. instant_of (fst t)) g) = M
             \<and> sorted_wrt (<) (map (\<lambda>t. instant_of (fst t)) (sort_key (\<lambda>t. instant_of (fst t)) g))"
      using f by simp
  qed
  have per: "tilefunction_spatiotemporal E function context ?md ?om x = ?F x"
    if x: "x \<in> set ?groups" for x
  proof -
    obtain k g where xkg: "x = (k, g)" by (cases x)
    note f = grp [OF x [unfolded xkg]]
    have stg: "\<forall>t \<in> set g. is_spacetime (fst t)" using st f by auto
    have shg: "\<forall>t \<in> set g. shape (cells (snd t)) = [nb, h, w]" using sh f by auto
    have ne: "g \<noteq> []" using f by simp
    show ?thesis
      unfolding xkg
      by (simp add: tilefunction_spatiotemporal_def group_datacube_stacked [OF stg ne shg lc lr]
            Let_def cong: sum.case_cong if_cong)
  qed
  have out: "numpy_rdd (snd (pyramid ?result ! i)) = rdd_flatMap ?F (Inr ?groups)"
    unfolding nth snd_conv rdd by (rule rdd_flatMap_cong) (rule per)
  have z: "fst (pyramid ?result ! i) = z" unfolding nth by simp
  show ?thesis
    using app len z lg dist keys each out unfolding sk by blast
qed

theorem spatiotemporal_grouping_witness:
  "apply_tiles_spatiotemporal example_env example_cube ''identity'' PyNone []
     = (Inr \<lparr>pyramid = [(0, \<lparr>layer_type = SPACETIME, layer_metadata = example_metadata,
                             numpy_rdd = Inr [(SpaceTimeKey 0 0 1, fill_tile 2 7 FLOAT32 (-1)),
                                              (SpaceTimeKey 0 0 2, fill_tile 2 5 FLOAT32 (-1)),
                                              (SpaceTimeKey 1 0 1, fill_tile 2 1 FLOAT32 (-1)),
                                              (SpaceTimeKey 1 0 2, fill_tile 2 3 FLOAT32 (-1))]\<rparr>)],
              metadata = example_openeo_metadata\<rparr>,
        [ConvertDataType, ToNumpyRdd, FromNumpyRdd])
   \<and> card ((\<lambda>t. SpatialKey (col (fst t)) (row (fst t))) ` set example_tiles) = 2
   \<and> (\<exists>result ops' groups.
           apply_tiles_spatiotemporal example_env example_cube ''identity'' PyNone [] = (Inr result, ops')
         \<and> length (pyramid result) = length (pyramid example_cube)
         \<and> fst (pyramid result ! 0) = 0
         \<and> length groups = card ((\<lambda>t. SpatialKey (col (fst t)) (row (fst t))) ` set example_tiles)
         \<and> distinct (map fst groups)
         \<and> fst ` set groups = (\<lambda>t. SpatialKey (col (fst t)) (row (fst t))) ` set example_tiles
         \<and> (\<forall>(k, g) \<in> set groups.
               length g = 2
             \<and> set g = {t \<in> set example_tiles. SpatialKey (col (fst t)) (row (fst t)) = k}
             \<and> set (sort_key (\<lambda>t. instant_of (fst t)) g) = set g
             \<and> length (sort_key (\<lambda>t. instant_of (fst t)) g) = 2
             \<and> sorted_wrt (<) (map (\<lambda>t. instant_of (fst t)) (sort_key (\<lambda>t. instant_of (fst t)) g)))
         \<and> numpy_rdd (snd (pyramid result ! 0))
             = rdd_flatMap
                 (\<lambda>(k, g).
                    let tile_list = sort_key (\<lambda>t. instant_of (fst t)) g;
                        stacked =
                          \<lparr>vals = Array (map (\<lambda>t. cells (snd t)) tile_list),
                           dims = [''t'', ''bands'', ''x'', ''y''],
                           coords = (''t'', TimeCoord (Some (map (\<lambda>t. instant_of (fst t)) tile_list)))
                                    # (case band_dimension_opt (metadata example_cube) of
                                         None \<Rightarrow> []
                                       | Some b \<Rightarrow> [(''bands'', BandCoord (band_names b))]),
                           name = ''openEODataChunk''\<rparr>
                    in if (case band_dimension_opt (metadata example_cube) of
                             None \<Rightarrow> True
                           | Some b \<Rightarrow> length (band_names b) = 1)
                       then (case run_user_code example_env ''identity''
                                    (udf_data (DataCube stacked) PyNone) of
                               Inl e \<Rightarrow> Inl e
                             | Inr result_data \<Rightarrow>
                                 let cubes = datacube_list result_data in
                                 if length cubes \<noteq> 1 then Inl (UdfContractViolation cubes)
                                 else
                                   let result_array = array (cubes ! 0)
                                   in if ''t'' \<in> set (dims result_array)
                                      then Inr (map (\<lambda>(timestamp, array_slice).
                                                   (SpaceTimeKey (col k) (row k) timestamp,
                                                    \<lparr>cells = vals array_slice, cell_type = FLOAT32,
                                                     no_data_value = no_data_value (snd (tile_list ! 0))\<rparr>))
                                                 (groupby_t example_env result_array))
                                      else Inr [(SpaceTimeKey (col k) (row k) (now example_env),
                                                 \<lparr>cells = vals result_array, cell_type = FLOAT32,
                                                  no_data_value = no_data_value (snd (tile_list ! 0))\<rparr>)])
                       else Inl ValueError)
                 (Inr groups))"
proof -
  have comp: "py_compile example_env ''identity'' = None"
    by (simp add: example_env_def)
  have i: "0 < length (pyramid example_cube)"
    and lvl: "pyramid example_cube ! 0 = (0, example_level)"
    by (simp_all add: example_cube_def)
  have ts: "numpy_rdd (convert_data_type example_env FLOAT32 example_level) = Inr example_tiles"
    by (simp add: example_level_def example_env_def fill_tile_def example_tiles_def)
  have st: "\<forall>t \<in> set example_tiles. is_spacetime (fst t)"
    by (simp add: example_tiles_def)
  have d: "distinct (map fst example_tiles)"
    by (simp add: example_tiles_def)
  have M: "\<forall>k \<in> (\<lambda>t. SpatialKey (col (fst t)) (row (fst t))) ` set example_tiles.
             card (set (map (\<lambda>u. instant_of (fst u))
                          (filter (\<lambda>u. SpatialKey (col (fst u)) (row (fst u)) = k) example_tiles))) = 2"
    by (simp add: example_tiles_def)
  have sh: "\<forall>t \<in> set example_tiles. shape (cells (snd t)) = [1, 2, 2]"
    by (simp add: example_tiles_def fill_tile_def numeral_2_eq_2)
  have lc: "layoutCols (tileLayout (layout_definition (layer_metadata example_level))) \<noteq> 0"
    and lr: "layoutRows (tileLayout (layout_definition (layer_metadata example_level))) \<noteq> 0"
    by (simp_all add: example_level_def example_metadata_def example_layout_def)
  have c: "card ((\<lambda>t. SpatialKey (col (fst t)) (row (fst t))) ` set example_tiles) = 2"
    by (simp add: example_tiles_def)
  have ev: "apply_tiles_spatiotemporal example_env example_cube ''identity'' PyNone []
     = (Inr \<lparr>pyramid = [(0, \<lparr>layer_type = SPACETIME, layer_metadata = example_metadata,
                             numpy_rdd = Inr [(SpaceTimeKey 0 0 1, fill_tile 2 7 FLOAT32 (-1)),
                                              (SpaceTimeKey 0 0 2, fill_tile 2 5 FLOAT32 (-1)),
                                              (SpaceTimeKey 1 0 1, fill_tile 2 1 FLOAT32 (-1)),
                                              (SpaceTimeKey 1 0 2, fill_tile 2 3 FLOAT32 (-1))]\<rparr>)],
              metadata = example_openeo_metadata\<rparr>,
        [ConvertDataType, ToNumpyRdd, FromNumpyRdd])"
    by code_simp
  show ?thesis
    using spatiotemporal_grouping [OF comp i lvl ts st d M sh lc lr, of PyNone "[]"] c ev
    by (rule_tac conjI [OF _ conjI])
qed

subsection \<open>\<open>apply_tiles\<close> with the identity user function\<close>

text \<open>
  Claim C4 says that \<open>apply_tiles\<close> with the identity user function reproduces every
  level, coerced to the floating-point cell type. The per-tile function of
  \<open>apply_tiles\<close> reads the band dimension of the cube's metadata unguarded, and the
  accessor raises for a cube that declares none; the per-group function of
  \<open>apply_tiles_spatiotemporal\<close> guards the same access with
  \<open>has_band_dimension()\<close>. The theorem evaluates both on a cube that declares the
  temporal dimension \<open>t\<close> only, with the user function that returns its input: the level
  returned by \<open>apply_tiles\<close> fails with \<open>MetadataException\<close> when its tiles are
  evaluated, instead of holding the coerced tiles, whereas the grouped mode returns tiles.
  On a cube that declares a band dimension whose names label the bands of every tile the
  claim holds (\<open>apply_tiles_identity_with_band_dimension\<close>).
\<close>

theorem apply_tiles_identity_without_band_dimension:
  "band_dimension_opt (metadata temporal_cube) = None
   \<and> run_user_code example_env ''identity'' = Inr
   \<and> map (\<lambda>(k, l). numpy_rdd (convert_data_type example_env FLOAT32 l)) (pyramid temporal_cube)
       = [Inr example_tiles]
   \<and> apply_tiles example_env temporal_cube ''identity'' PyNone []
       = (Inr \<lparr>pyramid = [(0, \<lparr>layer_type = SPACETIME, layer_metadata = example_metadata,
                               numpy_rdd = Inl MetadataException\<rparr>)],
                metadata = metadata temporal_cube\<rparr>,
          [ConvertDataType, ToNumpyRdd, FromNumpyRdd])
   \<and> apply_tiles_spatiotemporal example_env temporal_cube ''identity'' PyNone []
       = (Inr \<lparr>pyramid = [(0, \<lparr>layer_type = SPACETIME, layer_metadata = example_metadata,
                               numpy_rdd = Inr [(SpaceTimeKey 0 0 1, fill_tile 2 7 FLOAT32 (-1)),
                                                (SpaceTimeKey 0 0 2, fill_tile 2 5 FLOAT32 (-1)),
                                                (SpaceTimeKey 1 0 1, fill_tile 2 1 FLOAT32 (-1)),
                                                (SpaceTimeKey 1 0 2, fill_tile 2 3 FLOAT32 (-1))]\<rparr>)],
                metadata = metadata temporal_cube\<rparr>,
          [ConvertDataType, ToNumpyRdd, FromNumpyRdd])"
proof -
  have a: "band_dimension_opt (metadata temporal_cube) = None"
    by (simp add: temporal_cube_def)
  have b: "run_user_code example_env ''identity'' = Inr"
    by (rule ext) (simp add: example_env_def)
  have c: "map (\<lambda>(k, l). numpy_rdd (convert_data_type example_env FLOAT32 l)) (pyramid temporal_cube)
       = [Inr example_tiles]"
    by (simp add: temporal_cube_def example_level_def example_env_def fill_tile_def
          example_tiles_def)
  have d: "apply_tiles example_env temporal_cube ''identity'' PyNone []
       = (Inr \<lparr>pyramid = [(0, \<lparr>layer_type = SPACETIME, layer_metadata = example_metadata,
                               numpy_rdd = Inl MetadataException\<rparr>)],
                metadata = metadata temporal_cube\<rparr>,
          [ConvertDataType, ToNumpyRdd, FromNumpyRdd])"
    by code_simp
  have e: "apply_tiles_spatiotemporal example_env temporal_cube ''identity'' PyNone []
       = (Inr \<lparr>pyramid = [(0, \<lparr>layer_type = SPACETIME, layer_metadata = example_metadata,
                               numpy_rdd = Inr [(SpaceTimeKey 0 0 1, fill_tile 2 7 FLOAT32 (-1)),
                                                (SpaceTimeKey 0 0 2, fill_tile 2 5 FLOAT32 (-1)),
                                                (SpaceTimeKey 1 0 1, fill_tile 2 1 FLOAT32 (-1)),
                                                (SpaceTimeKey 1 0 2, fill_tile 2 3 FLOAT32 (-1))]\<rparr>)],
                metadata = metadata temporal_cube\<rparr>,
          [ConvertDataType, ToNumpyRdd, FromNumpyRdd])"
    by code_simp
  show ?thesis using a b c d e by simp
qed

subsection \<open>Single-result contract of user functions\<close>

text \<open>
  Claim C7. In both UDF modes, once the user function has been invoked on the data cube of
  the tile (of the group) and has returned, the pipeline fails with
  \<open>UdfContractViolation\<close> if and only if the number of data cubes in the result differs
  from one. When exactly one is returned no error is raised and the tiles are rebuilt from
  it: in single-tile mode one tile with the same key, the returned values and the input
  tile's cell type and nodata value; in grouped mode, when the returned array has a
  dimension \<open>t\<close>, one tile per timestamp of the returned array, holding the values of
  that slice, and otherwise a single tile holding the returned values, stamped with the
  current time; these tiles carry the column and row of the group's spatial key, the cell
  type \<open>FLOAT32\<close> and the nodata value of the group's tile of earliest instant.
\<close>

theorem udf_single_result_contract:
  assumes "mapTransform (layout_definition md) (fst gt) = Inr ext"
    and "band_dimension om = Inr b"
    and "tile_to_datacube (cells (snd gt)) ext (Some b) None = Inr datacube"
    and "run_user_code E function (udf_data datacube context) = Inr result"
    and "group_datacube metadata' om' tiles = Inr (tile_list, datacube')"
    and "run_user_code E function' (udf_data datacube' context') = Inr result'"
  shows "((\<exists>cubes. tilefunction E function context md om gt = Inl (UdfContractViolation cubes))
            \<longleftrightarrow> length (datacube_list result) \<noteq> 1)
       \<and> (length (datacube_list result) = 1 \<longrightarrow>
            tilefunction E function context md om gt =
              Inr (fst gt, \<lparr>cells = vals (array (datacube_list result ! 0)),
                            cell_type = cell_type (snd gt), no_data_value = no_data_value (snd gt)\<rparr>))
       \<and> ((\<exists>cubes. tilefunction_spatiotemporal E function' context' metadata' om' tiles
                       = Inl (UdfContractViolation cubes))
            \<longleftrightarrow> length (datacube_list result') \<noteq> 1)
       \<and> (length (datacube_list result') = 1 \<longrightarrow>
            tilefunction_spatiotemporal E function' context' metadata' om' tiles =
              Inr (if ''t'' \<in> set (dims (array (datacube_list result' ! 0)))
                   then map (\<lambda>(timestamp, array_slice).
                               (SpaceTimeKey (col (fst tiles)) (row (fst tiles)) timestamp,
                                \<lparr>cells = vals array_slice, cell_type = FLOAT32,
                                 no_data_value =
                                   no_data_value
                                     (snd (sort_key (\<lambda>tup. instant_of (fst tup)) (snd tiles) ! 0))\<rparr>))
                          (groupby_t E (array (datacube_list result' ! 0)))
                   else [(SpaceTimeKey (col (fst tiles)) (row (fst tiles)) (now E),
                          \<lparr>cells = vals (array (datacube_list result' ! 0)), cell_type = FLOAT32,
                           no_data_value =
                             no_data_value
                               (snd (sort_key (\<lambda>tup. instant_of (fst tup)) (snd tiles) ! 0))\<rparr>)]))"
  using assms group_datacube_tile_list [OF assms(5)]
  by (simp add: tilefunction_def tilefunction_spatiotemporal_def Let_def)

theorem udf_single_result_contract_witness:
  "(\<exists>cubes. tilefunction example_env ''nothing'' PyNone example_metadata example_openeo_metadata
               (SpaceTimeKey 0 0 2, fill_tile 2 5 FLOAT32 255) = Inl (UdfContractViolation cubes))
   \<and> tilefunction_spatiotemporal example_env ''identity'' PyNone example_metadata
        example_openeo_metadata example_group
      = Inr [(SpaceTimeKey 0 0 1, fill_tile 2 7 FLOAT32 (-1)),
             (SpaceTimeKey 0 0 2, fill_tile 2 5 FLOAT32 (-1))]"
proof -
  let ?gt = "(SpaceTimeKey 0 0 2, fill_tile 2 5 FLOAT32 255)"
  let ?ext = "\<lparr>top = 8, bottom = 4, right = 4, left = 0, height = 4, width = 4\<rparr>"
  let ?b = "\<lparr>bd_name = ''bands'', band_names = [''B04'']\<rparr>"
  let ?dc = "DataCube \<lparr>vals = cells (snd ?gt), dims = [''bands'', ''x'', ''y''],
                       coords = [(''bands'', BandCoord [''B04''])], name = ''openEODataChunk''\<rparr>"
  let ?d = "udf_data ?dc PyNone"
  let ?tl = "[(SpaceTimeKey 0 0 1, fill_tile 2 7 FLOAT32 (-1)),
              (SpaceTimeKey 0 0 2, fill_tile 2 5 FLOAT32 255)]"
  let ?dc' = "DataCube \<lparr>vals = Array (map (\<lambda>t. cells (snd t)) ?tl),
                        dims = [''t'', ''bands'', ''x'', ''y''],
                        coords = [(''t'', TimeCoord (Some [1, 2])), (''bands'', BandCoord [''B04''])],
                        name = ''openEODataChunk''\<rparr>"
  have h1: "mapTransform (layout_definition example_metadata) (fst ?gt) = Inr ?ext"
    by (simp add: mapTransform_def example_metadata_def example_layout_def Let_def)
  have h2: "band_dimension example_openeo_metadata = Inr ?b"
    by (simp add: band_dimension_def example_openeo_metadata_def)
  have h3: "tile_to_datacube (cells (snd ?gt)) ?ext (Some ?b) None = Inr ?dc"
    by (simp add: tile_to_datacube_def xr_DataArray_def fill_tile_def numeral_2_eq_2)
  have h4: "run_user_code example_env ''nothing'' ?d = Inr (?d\<lparr>datacube_list := []\<rparr>)"
    by (simp add: example_env_def)
  have h5: "group_datacube example_metadata example_openeo_metadata example_group = Inr (?tl, ?dc')"
    by (simp add: group_datacube_def example_group_def mapTransform_def example_metadata_def
          example_layout_def example_openeo_metadata_def has_band_dimension_def
          tile_to_datacube_def xr_DataArray_def fill_tile_def Let_def numeral_2_eq_2)
  have h6: "run_user_code example_env ''identity'' (udf_data ?dc' PyNone) = Inr (udf_data ?dc' PyNone)"
    by (simp add: example_env_def)
  show ?thesis
    using udf_single_result_contract [OF h1 h2 h3 h4 h5 h6]
    by (simp add: udf_data_def example_group_def example_env_def example_groupby_t_def
          fill_tile_def numeral_2_eq_2)
qed

subsection \<open>Cell type and nodata value of grouped-mode output tiles\<close>

text \<open>
  Claim C10. In grouped mode every output tile has cell type \<open>FLOAT32\<close>, whatever array
  the user function returned, and its nodata value is that of the first tile of the group
  after the stable sort by ascending instant, which is a tile of the group with the
  earliest instant.
\<close>

theorem grouped_tiles_float32_nodata:
  assumes "tilefunction_spatiotemporal E function context md om tiles = Inr out"
    and "(k, t) \<in> set out"
  shows "cell_type t = FLOAT32
       \<and> snd tiles \<noteq> []
       \<and> no_data_value t
           = no_data_value (snd (sort_key (\<lambda>tup. instant_of (fst tup)) (snd tiles) ! 0))
       \<and> (\<forall>u \<in> set (snd tiles).
            instant_of (fst (sort_key (\<lambda>tup. instant_of (fst tup)) (snd tiles) ! 0))
              \<le> instant_of (fst u))"
proof -
  let ?s = "sort_key (\<lambda>tup. instant_of (fst tup)) (snd tiles)"
  from assms(1) obtain dc where g: "group_datacube md om tiles = Inr (?s, dc)" and ne: "?s \<noteq> []"
    by (auto simp: tilefunction_spatiotemporal_def group_datacube_def Let_def
             split: sum.splits list.splits prod.splits)
  from ne have ne': "snd tiles \<noteq> []" by auto
  have "cell_type t = FLOAT32 \<and> no_data_value t = no_data_value (snd (?s ! 0))"
    using assms g
    by (auto simp: tilefunction_spatiotemporal_def Let_def split: sum.splits if_splits)
  moreover have "\<forall>u \<in> set (snd tiles). instant_of (fst (?s ! 0)) \<le> instant_of (fst u)"
  proof
    fix u assume "u \<in> set (snd tiles)"
    then have "u \<in> set ?s" by simp
    then obtain i where i: "i < length ?s" "?s ! i = u" by (metis in_set_conv_nth)
    have "sorted (map (\<lambda>tup. instant_of (fst tup)) ?s)" by (rule sorted_sort_key)
    then have "map (\<lambda>tup. instant_of (fst tup)) ?s ! 0 \<le> map (\<lambda>tup. instant_of (fst tup)) ?s ! i"
      using i(1) by (intro sorted_nth_mono) auto
    moreover have "0 < length ?s" using ne by (simp del: length_sort)
    ultimately show "instant_of (fst (?s ! 0)) \<le> instant_of (fst u)"
      using i by (simp del: length_sort)
  qed
  ultimately show ?thesis using ne' by simp
qed


theorem grouped_tiles_float32_nodata_witness:
  "tilefunction_spatiotemporal example_env ''identity'' PyNone example_metadata
     example_openeo_metadata example_group
     = Inr [(SpaceTimeKey 0 0 1, fill_tile 2 7 FLOAT32 (-1)),
            (SpaceTimeKey 0 0 2, (fill_tile 2 5 FLOAT32 (-1)))]
   \<and> cell_type (fill_tile 2 5 FLOAT32 (-1)) = FLOAT32
   \<and> no_data_value (fill_tile 2 5 FLOAT32 (-1)) = Some (Val (-1))"
proof -
  have h: "tilefunction_spatiotemporal example_env ''identity'' PyNone example_metadata
             example_openeo_metadata example_group
           = Inr [(SpaceTimeKey 0 0 1, fill_tile 2 7 FLOAT32 (-1)),
                  (SpaceTimeKey 0 0 2, (fill_tile 2 5 FLOAT32 (-1)))]"
    by (simp add: tilefunction_spatiotemporal_def group_datacube_def example_group_def
          mapTransform_def example_metadata_def example_layout_def example_env_def
          example_openeo_metadata_def has_band_dimension_def tile_to_datacube_def
          xr_DataArray_def udf_data_def example_groupby_t_def fill_tile_def Let_def numeral_2_eq_2)
  show ?thesis
    using grouped_tiles_float32_nodata [OF h, of "SpaceTimeKey 0 0 2" "fill_tile 2 5 FLOAT32 (-1)"] h
    by (simp add: example_group_def fill_tile_def)
qed

subsection \<open>Dispatch of \<open>reduce_dimension\<close>\<close>

text \<open>
  Claim C2 says that every (reducer, dimension) pair outside the four supported paths fails
  with \<open>UnsupportedCombination\<close>, in particular a UDF reducer on a dimension that is
  neither the temporal nor the band dimension. The UDF branch of the code has no final
  \<open>else\<close>: for such a dimension \<open>result_collection\<close> stays \<open>None\<close> and the call
  returns \<open>None\<close> without raising and without touching the store, whereas the sibling
  branch for other reducers raises the error. The theorem evaluates the call on the example
  cube (dimensions \<open>t\<close> and \<open>bands\<close>) with a UDF reducer and the dimension \<open>x\<close>.
\<close>

theorem reduce_dimension_udf_other_dimension:
  "reduce_dimension example_env example_cube ''x''
     (Inr (SingleNodeUDFProcessGraphVisitor [(''udf'', PyStr ''identity'')])) [] = (Inr None, [])"
  by (simp add: reduce_dimension_def reduce_dimension_dispatch_def example_cube_def
        example_openeo_metadata_def temporal_dimension_def band_dimension_def)

text \<open>
  Claim C8, as amended. For a cube that declares a temporal dimension and a reducer that is
  a single named process, a dimension that differs from the temporal dimension's name and
  is not the name of a declared band dimension makes \<open>reduce_dimension\<close> fail with
  \<open>UnsupportedDimension\<close>, with the log of store operations unchanged.
\<close>

theorem reduce_dimension_unsupported_dimension:
  assumes "temporal_dimension_opt (metadata self) = Some tname"
    and "dimension \<noteq> tname"
    and "\<forall>b. band_dimension_opt (metadata self) = Some b \<longrightarrow> dimension \<noteq> bd_name b"
    and "processes reducer = Some [p]"
  shows "reduce_dimension E self dimension (Inr reducer) ops
           = (Inl (UnsupportedDimension dimension), ops)"
  using assms
  by (cases reducer)
     (auto simp: reduce_dimension_def reduce_dimension_dispatch_def reduce_def
        normalize_temporal_reducer_def temporal_dimension_def lift_result_def
        split: option.splits)

theorem reduce_dimension_unsupported_dimension_witness:
  "reduce_dimension example_env example_cube ''x''
     (Inr (GeotrellisTileProcessGraphVisitor (Some [''max'']))) []
   = (Inl (UnsupportedDimension ''x''), [])"
  using reduce_dimension_unsupported_dimension
          [of example_cube "''t''" "''x''" "GeotrellisTileProcessGraphVisitor (Some [''max''])"
              "''max''" example_env "[]"]
  by (simp add: example_cube_def example_openeo_metadata_def)

text \<open>
  Claim C8 as stated fails when the dimension is the declared band dimension: it differs
  from the temporal dimension's name, yet the single-process reducer is handed to the band
  reduction, which converts the data type and maps the bands on the store.
\<close>

theorem reduce_dimension_band_dimension_counterexample:
  "temporal_dimension_opt (metadata example_cube) = Some ''t''
   \<and> ''bands'' \<noteq> ''t''
   \<and> processes (GeotrellisTileProcessGraphVisitor (Some [''max''])) = Some [''max'']
   \<and> (\<exists>c. reduce_dimension example_env example_cube ''bands''
              (Inr (GeotrellisTileProcessGraphVisitor (Some [''max'']))) []
            = (Inr (Some c), [ConvertDataType, MapBands]))"
  by (simp add: reduce_dimension_def reduce_dimension_dispatch_def reduce_bands_def
        apply_to_levels_def apply_to_levels_geotrellis_rdd_def example_cube_def
        example_openeo_metadata_def example_env_def)

subsection \<open>Eager syntax check of user code\<close>

text \<open>
  Claim C3 says that both UDF modes syntax-check the user code at call time. Only
  \<open>apply_tiles_spatiotemporal\<close> compiles the code before building the layers;
  \<open>apply_tiles\<close> has no such check. On the example cube, with the source text
  \<open>def (\<close> that the compiler rejects, the grouped mode fails at once with the syntax
  error and the single-tile mode returns a cube.
\<close>

theorem apply_tiles_no_eager_syntax_check:
  "py_compile example_env ''def ('' = Some SyntaxError
   \<and> apply_tiles_spatiotemporal example_env example_cube ''def ('' PyNone [] = (Inl SyntaxError, [])
   \<and> (\<exists>c. apply_tiles example_env example_cube ''def ('' PyNone []
              = (Inr c, [ConvertDataType, ToNumpyRdd, FromNumpyRdd]))"
  by (simp add: apply_tiles_def apply_tiles_spatiotemporal_def apply_to_levels_def
        example_cube_def example_env_def)

subsection \<open>Validation in \<open>apply_neighborhood\<close>\<close>

text \<open>
  Claim C6. The checks of \<open>apply_neighborhood\<close> are made in this order, each reached
  when the earlier ones pass: exactly two spatial dimensions; the units of the two spatial
  window sizes are pixels (\<open>InvalidUnit\<close>); both sizes are at least 32
  (\<open>WindowTooSmall\<close>); the units of the given spatial overlaps are pixels
  (\<open>InvalidUnit\<close>). Each failure leaves the log of store operations unchanged, and
  whenever the call issues any store operation (the retiling is the first one) all the
  checks have passed.
\<close>

theorem apply_neighborhood_validation:
  "(length (spatial_dimensions (metadata self)) \<noteq> 2 \<longrightarrow>
      apply_neighborhood E self process size_arg overlap ops
        = (Inl (UnexpectedSpatialDimensions (spatial_dimensions (metadata self))), ops))
 \<and> (spatial_dimensions (metadata self) = [x, y]
      \<and> (unit_of size_arg x \<noteq> Some ''px'' \<or> unit_of size_arg y \<noteq> Some ''px'') \<longrightarrow>
      apply_neighborhood E self process size_arg overlap ops = (Inl (InvalidUnit WindowSizes), ops))
 \<and> (spatial_dimensions (metadata self) = [x, y]
      \<and> by_dimension size_arg x = Some ex \<and> by_dimension size_arg y = Some ey
      \<and> we_unit ex = Some ''px'' \<and> we_unit ey = Some ''px''
      \<and> int_value E ex = Inr sizeX \<and> int_value E ey = Inr sizeY
      \<and> (sizeX < 32 \<or> sizeY < 32) \<longrightarrow>
      apply_neighborhood E self process size_arg overlap ops = (Inl WindowTooSmall, ops))
 \<and> (spatial_dimensions (metadata self) = [x, y]
      \<and> by_dimension size_arg x = Some ex \<and> by_dimension size_arg y = Some ey
      \<and> we_unit ex = Some ''px'' \<and> we_unit ey = Some ''px''
      \<and> int_value E ex = Inr sizeX \<and> int_value E ey = Inr sizeY
      \<and> 32 \<le> sizeX \<and> 32 \<le> sizeY
      \<and> ((\<exists>e. by_dimension overlap x = Some e \<and> we_unit e \<noteq> Some ''px'')
           \<or> (\<exists>e. by_dimension overlap y = Some e \<and> we_unit e \<noteq> Some ''px'')) \<longrightarrow>
      apply_neighborhood E self process size_arg overlap ops = (Inl (InvalidUnit OverlapSizes), ops))
 \<and> (\<forall>r ops'. apply_neighborhood E self process size_arg overlap ops = (r, ops') \<and> ops' \<noteq> ops \<longrightarrow>
      (\<exists>x y sizeX sizeY. spatial_dimensions (metadata self) = [x, y]
         \<and> unit_of size_arg x = Some ''px'' \<and> unit_of size_arg y = Some ''px''
         \<and> (case by_dimension size_arg x of None \<Rightarrow> Inl KeyError | Some e \<Rightarrow> int_value E e) = Inr sizeX
         \<and> (case by_dimension size_arg y of None \<Rightarrow> Inl KeyError | Some e \<Rightarrow> int_value E e) = Inr sizeY
         \<and> 32 \<le> sizeX \<and> 32 \<le> sizeY
         \<and> (\<forall>e. by_dimension overlap x = Some e \<longrightarrow> we_unit e = Some ''px'')
         \<and> (\<forall>e. by_dimension overlap y = Some e \<longrightarrow> we_unit e = Some ''px'')))"
proof (intro conjI impI allI)
  assume "length (spatial_dimensions (metadata self)) \<noteq> 2"
  then show "apply_neighborhood E self process size_arg overlap ops
        = (Inl (UnexpectedSpatialDimensions (spatial_dimensions (metadata self))), ops)"
    by (simp add: apply_neighborhood_def apply_neighborhood_arguments_def)
next
  assume "spatial_dimensions (metadata self) = [x, y]
      \<and> (unit_of size_arg x \<noteq> Some ''px'' \<or> unit_of size_arg y \<noteq> Some ''px'')"
  then show "apply_neighborhood E self process size_arg overlap ops = (Inl (InvalidUnit WindowSizes), ops)"
    by (auto simp: apply_neighborhood_def apply_neighborhood_arguments_def unit_of_def Let_def)
next
  assume "spatial_dimensions (metadata self) = [x, y]
      \<and> by_dimension size_arg x = Some ex \<and> by_dimension size_arg y = Some ey
      \<and> we_unit ex = Some ''px'' \<and> we_unit ey = Some ''px''
      \<and> int_value E ex = Inr sizeX \<and> int_value E ey = Inr sizeY
      \<and> (sizeX < 32 \<or> sizeY < 32)"
  then show "apply_neighborhood E self process size_arg overlap ops = (Inl WindowTooSmall, ops)"
    by (auto simp: apply_neighborhood_def apply_neighborhood_arguments_def Let_def)
next
  assume "spatial_dimensions (metadata self) = [x, y]
      \<and> by_dimension size_arg x = Some ex \<and> by_dimension size_arg y = Some ey
      \<and> we_unit ex = Some ''px'' \<and> we_unit ey = Some ''px''
      \<and> int_value E ex = Inr sizeX \<and> int_value E ey = Inr sizeY
      \<and> 32 \<le> sizeX \<and> 32 \<le> sizeY
      \<and> ((\<exists>e. by_dimension overlap x = Some e \<and> we_unit e \<noteq> Some ''px'')
           \<or> (\<exists>e. by_dimension overlap y = Some e \<and> we_unit e \<noteq> Some ''px''))"
  then show "apply_neighborhood E self process size_arg overlap ops = (Inl (InvalidUnit OverlapSizes), ops)"
    by (auto simp: apply_neighborhood_def apply_neighborhood_arguments_def Let_def split: option.splits)
next
  fix r ops'
  assume a: "apply_neighborhood E self process size_arg overlap ops = (r, ops') \<and> ops' \<noteq> ops"
  then obtain v where v: "apply_neighborhood_arguments E self size_arg overlap = Inr v"
    by (cases "apply_neighborhood_arguments E self size_arg overlap")
       (auto simp: apply_neighborhood_def)
  have l2: "length (spatial_dimensions (metadata self)) = 2"
  proof (rule ccontr)
    assume "length (spatial_dimensions (metadata self)) \<noteq> 2"
    then have "apply_neighborhood_arguments E self size_arg overlap
                 = Inl (UnexpectedSpatialDimensions (spatial_dimensions (metadata self)))"
      by (simp add: apply_neighborhood_arguments_def)
    with v show False by simp
  qed
  then obtain x y where xy: "spatial_dimensions (metadata self) = [x, y]"
    by (auto simp: length_Suc_conv numeral_2_eq_2)
  show "\<exists>x y sizeX sizeY. spatial_dimensions (metadata self) = [x, y]
         \<and> unit_of size_arg x = Some ''px'' \<and> unit_of size_arg y = Some ''px''
         \<and> (case by_dimension size_arg x of None \<Rightarrow> Inl KeyError | Some e \<Rightarrow> int_value E e) = Inr sizeX
         \<and> (case by_dimension size_arg y of None \<Rightarrow> Inl KeyError | Some e \<Rightarrow> int_value E e) = Inr sizeY
         \<and> 32 \<le> sizeX \<and> 32 \<le> sizeY
         \<and> (\<forall>e. by_dimension overlap x = Some e \<longrightarrow> we_unit e = Some ''px'')
         \<and> (\<forall>e. by_dimension overlap y = Some e \<longrightarrow> we_unit e = Some ''px'')"
    using v xy
    by (auto simp: apply_neighborhood_arguments_def Let_def unit_of_def split: sum.splits if_splits)
qed


theorem apply_neighborhood_validation_witness:
  "apply_neighborhood example_env example_cube [] (px_window 16 ''px'') [] []
     = (Inl WindowTooSmall, [])
   \<and> apply_neighborhood example_env example_cube [] (px_window 64 ''m'') [] []
     = (Inl (InvalidUnit WindowSizes), [])
   \<and> apply_neighborhood example_env example_cube [] (px_window 64 ''px'') (px_window 8 ''m'') []
     = (Inl (InvalidUnit OverlapSizes), [])"
proof -
  let ?e = "\<lambda>n u d. \<lparr>we_dimension = d, we_value = Some (PyInt n), we_unit = Some u\<rparr>"
  have d: "spatial_dimensions (metadata example_cube) = [''x'', ''y'']"
    by (simp add: example_cube_def example_openeo_metadata_def)
  have b: "by_dimension (px_window n u) ''x'' = Some (?e n u ''x'')"
          "by_dimension (px_window n u) ''y'' = Some (?e n u ''y'')" for n u
    by (simp_all add: by_dimension_def px_window_def)
  have i: "int_value example_env (?e n u dd) = Inr n" for n u dd
    by (simp add: int_value_def py_int_def)
  note t = apply_neighborhood_validation
             [of example_cube example_env "[]" _ _ "[]" "''x''" "''y''"]
  have "apply_neighborhood example_env example_cube [] (px_window 16 ''px'') [] []
          = (Inl WindowTooSmall, [])"
    using t [of "px_window 16 ''px''" "[]" "?e 16 ''px'' ''x''" "?e 16 ''px'' ''y''" 16 16] d b i
    by simp
  moreover have "apply_neighborhood example_env example_cube [] (px_window 64 ''m'') [] []
          = (Inl (InvalidUnit WindowSizes), [])"
    using t [of "px_window 64 ''m''" "[]"] d b by (simp add: unit_of_def)
  moreover have "apply_neighborhood example_env example_cube [] (px_window 64 ''px'')
                   (px_window 8 ''m'') [] = (Inl (InvalidUnit OverlapSizes), [])"
    using t [of "px_window 64 ''px''" "px_window 8 ''m''" "?e 64 ''px'' ''x''"
                "?e 64 ''px'' ''y''" 64 64] d b i
    by simp
  ultimately show ?thesis by simp
qed

subsection \<open>Stitching\<close>

lemma set_arange [simp]: "set (arange a b) = {a..b - 1}"
  by (simp add: arange_def)















lemma length_arange [simp]: "length (arange a b) = nat (b - a)"
  by (simp add: arange_def)





lemma inj_on_offset: "a \<le> lo \<Longrightarrow> inj_on (\<lambda>v. nat (v - a)) {lo..hi}"
  by (auto simp: inj_on_def)



lemma window0_shape:
  "length (replicate B (replicate W (replicate H v))) = B
   \<and> (\<forall>k < B. length (replicate B (replicate W (replicate H v)) ! k) = W
        \<and> (\<forall>i < W. length (replicate B (replicate W (replicate H v)) ! k ! i) = H))"
  by simp



end
